theory Spec2Isabelle
  imports Complex_Main "HOL-Library.Char_ord" "HOL-Library.List_Lexorder"
begin

section \<open>Numbers, dates and rounding\<close>

text \<open>
  A model of the review backend: the normalizer of the external channel's records, the
  review entity with its save hook, the repository over the document collection, the
  review service with its cache, and the aggregation pipelines of the analytics
  service. Operations take the store and the cache as arguments and return them
  updated; an exception is a value \<open>Inl\<close> of the result; the current time is an
  argument wherever the program reads the clock.

  JavaScript numbers are modelled as rationals: ratings, means and percentages are
  exact here, where the program computes them in double precision. Dates are epoch
  milliseconds. Identifiers that the program holds in a number (the Hostaway id) are
  integers.
\<close>

type_synonym number = rat
type_synonym date = int

text \<open>
  \<^verbatim>\<open>parseFloat(x.toFixed(2))\<close>: \<^verbatim>\<open>toFixed\<close> takes the sign off, picks the integer
  \<open>n\<close> with \<open>n / 100\<close> nearest to the magnitude, the larger one of two candidates,
  and puts the sign back. (From \<open>10^21\<close> on it prints the number in exponent notation;
  a double of that size is an integer, as is the value computed here for an integer.)
  The program rounds the double it has computed, which can lie on the other side of a
  decimal tie than the exact quotient; the value here is the rounding of the exact
  quotient, and nothing below depends on the direction of a tie.
\<close>

definition toFixed2 :: "number \<Rightarrow> number" where
  "toFixed2 x =
     (if x < 0 then - (of_int \<lfloor>(- x) * 100 + 1 / 2\<rfloor> / 100)
      else of_int \<lfloor>x * 100 + 1 / 2\<rfloor> / 100)"

text \<open>
  The aggregation operator \<^verbatim>\<open>{ $round: [x, 2] }\<close> of the document store rounds to the
  nearest multiple of \<open>1/100\<close> and, of two candidates, to the even one.
\<close>

definition round_half_even :: "number \<Rightarrow> int" where
  "round_half_even x =
     (let f = \<lfloor>x\<rfloor>; d = x - of_int f
      in if d < 1 / 2 then f
         else if 1 / 2 < d then f + 1
         else if even f then f else f + 1)"

definition round2 :: "number \<Rightarrow> number" where
  "round2 x = of_int (round_half_even (x * 100)) / 100"

text \<open>The arithmetic mean of a non-empty list, and what it is to be a rounding of a
  number to two decimal places: a multiple of \<open>1/100\<close> at distance at most \<open>1/200\<close>.\<close>

definition mean :: "number list \<Rightarrow> number" where
  "mean xs = sum_list xs / of_nat (length xs)"

definition two_decimals :: "number \<Rightarrow> bool" where
  "two_decimals v \<longleftrightarrow> v * 100 = of_int \<lfloor>v * 100\<rfloor>"

definition rounded_to_2 :: "number \<Rightarrow> number \<Rightarrow> bool" where
  "rounded_to_2 m v \<longleftrightarrow> two_decimals v \<and> \<bar>v - m\<bar> \<le> 1 / 200"


section \<open>Data model\<close>

subsection \<open>The raw record of the external channel and the normalized review\<close>

record ReviewCategory =
  category :: string
  c_rating :: number

record HostawayReview =
  raw_id :: int
  raw_type :: string
  raw_status :: string
  raw_rating :: "number option"
  raw_publicReview :: string
  raw_privateReview :: "string option"
  raw_reviewCategory :: "ReviewCategory list"
  raw_submittedAt :: string
  raw_guestName :: string
  raw_listingName :: string
  raw_listingId :: "string option"
  raw_channelId :: "int option"

record NormalizedReview =
  n_hostawayId :: int
  n_type :: string
  n_status :: string
  n_rating :: "number option"
  n_publicReview :: string
  n_privateReview :: "string option"
  n_reviewCategories :: "ReviewCategory list"
  n_submittedAt :: date
  n_guestName :: string
  n_listingId :: string
  n_listingName :: string
  n_channel :: string
  n_averageCategoryRating :: number


section \<open>Normalizer (hostaway.service.ts)\<close>

text \<open>\<^verbatim>\<open>calculateAverageRating\<close>: 0 for no categories, else the sum folded from 0,
  divided by the length, through \<^verbatim>\<open>toFixed(2)\<close>.\<close>

definition calculateAverageRating :: "ReviewCategory list \<Rightarrow> number" where
  "calculateAverageRating categories =
     (if length categories = 0 then 0
      else let sum = foldl (\<lambda>acc cat. acc + c_rating cat) 0 categories
           in toFixed2 (sum / of_nat (length categories)))"

text \<open>\<^verbatim>\<open>generateListingId\<close>, on ASCII strings: lower-case; drop what is not a lower-case
  letter, a digit, white space or a hyphen; turn each run of white space into one
  hyphen; keep the first 50 characters.\<close>

definition code :: "char \<Rightarrow> nat" where
  "code c = of_char c"

definition toLowerCase :: "string \<Rightarrow> string" where
  "toLowerCase s = map (\<lambda>c. if 65 \<le> code c \<and> code c \<le> 90 then char_of (code c + 32) else c) s"

definition is_space :: "char \<Rightarrow> bool" where
  "is_space c \<longleftrightarrow> code c \<in> {9, 10, 11, 12, 13, 32}"

definition is_digit :: "char \<Rightarrow> bool" where
  "is_digit c \<longleftrightarrow> 48 \<le> code c \<and> code c \<le> 57"

definition kept_char :: "char \<Rightarrow> bool" where
  "kept_char c \<longleftrightarrow>
     (97 \<le> code c \<and> code c \<le> 122) \<or> is_digit c \<or> is_space c \<or> c = CHR ''-''"

function replace_spaces :: "string \<Rightarrow> string" where
  "replace_spaces [] = []"
| "replace_spaces (c # cs) =
     (if is_space c then CHR ''-'' # replace_spaces (dropWhile is_space cs)
      else c # replace_spaces cs)"
  by pat_completeness auto
termination
  by (relation "measure length") (auto simp: less_Suc_eq_le length_dropWhile_le)

definition generateListingId :: "string \<Rightarrow> string" where
  "generateListingId listingName =
     take 50 (replace_spaces (filter kept_char (toLowerCase listingName)))"

text \<open>\<^verbatim>\<open>a || b\<close> on an optional string: absent and empty are both falsy.\<close>

definition or_else :: "string option \<Rightarrow> string \<Rightarrow> string" where
  "or_else a b = (case a of None \<Rightarrow> b | Some s \<Rightarrow> if s = [] then b else s)"

definition or_null :: "string option \<Rightarrow> string option" where
  "or_null a = (case a of None \<Rightarrow> None | Some s \<Rightarrow> if s = [] then None else Some s)"

text \<open>\<^verbatim>\<open>normalizeReview\<close>. The parser behind \<^verbatim>\<open>new Date(string)\<close> belongs to the
  language runtime and is a parameter.\<close>

definition normalizeReview :: "(string \<Rightarrow> date) \<Rightarrow> HostawayReview \<Rightarrow> NormalizedReview" where
  "normalizeReview parseDate review =
     (let avgRating = calculateAverageRating (raw_reviewCategory review);
          listingId = or_else (raw_listingId review) (generateListingId (raw_listingName review))
      in \<lparr> n_hostawayId = raw_id review,
           n_type = raw_type review,
           n_status = raw_status review,
           n_rating = raw_rating review,
           n_publicReview = or_else (Some (raw_publicReview review)) [],
           n_privateReview = or_null (raw_privateReview review),
           n_reviewCategories =
             map (\<lambda>cat. \<lparr> category = category cat, c_rating = c_rating cat \<rparr>)
               (raw_reviewCategory review),
           n_submittedAt = parseDate (raw_submittedAt review),
           n_guestName = raw_guestName review,
           n_listingId = listingId,
           n_listingName = raw_listingName review,
           n_channel = ''hostaway'',
           n_averageCategoryRating = avgRating \<rparr>)"

definition normalizeReviews :: "(string \<Rightarrow> date) \<Rightarrow> HostawayReview list \<Rightarrow> NormalizedReview list" where
  "normalizeReviews parseDate hostawayReviews = map (normalizeReview parseDate) hostawayReviews"


subsection \<open>The stored entity (review.entity.ts)\<close>

record Review =
  hostawayId :: int
  rtype :: string
  status :: string
  rating :: "number option"
  publicReview :: string
  privateReview :: "string option"
  reviewCategories :: "ReviewCategory list"
  submittedAt :: date
  guestName :: string
  listingId :: string
  listingName :: string
  channel :: string
  isApprovedForPublic :: bool
  approvedBy :: "string option"
  approvedAt :: "date option"
  managerNotes :: "string option"
  averageCategoryRating :: "number option"

text \<open>\<^verbatim>\<open>Partial<Review>\<close>: every field may be absent (\<open>None\<close>); a nullable field that is
  present holds \<open>Some None\<close> for \<^verbatim>\<open>null\<close>.\<close>

record ReviewPatch =
  p_hostawayId :: "int option"
  p_type :: "string option"
  p_status :: "string option"
  p_rating :: "number option option"
  p_publicReview :: "string option"
  p_privateReview :: "string option option"
  p_reviewCategories :: "ReviewCategory list option"
  p_submittedAt :: "date option"
  p_guestName :: "string option"
  p_listingId :: "string option"
  p_listingName :: "string option"
  p_channel :: "string option"
  p_isApprovedForPublic :: "bool option"
  p_approvedBy :: "string option option"
  p_approvedAt :: "date option option"
  p_managerNotes :: "string option option"
  p_averageCategoryRating :: "number option option"

definition empty_patch :: ReviewPatch where
  "empty_patch =
     \<lparr> p_hostawayId = None, p_type = None, p_status = None, p_rating = None,
       p_publicReview = None, p_privateReview = None, p_reviewCategories = None,
       p_submittedAt = None, p_guestName = None, p_listingId = None, p_listingName = None,
       p_channel = None, p_isApprovedForPublic = None, p_approvedBy = None,
       p_approvedAt = None, p_managerNotes = None, p_averageCategoryRating = None \<rparr>"

definition set_field :: "'a option \<Rightarrow> 'a \<Rightarrow> 'a" where
  "set_field new old = (case new of None \<Rightarrow> old | Some v \<Rightarrow> v)"

text \<open>An update document without operators is a \<^verbatim>\<open>$set\<close> of the fields it holds.\<close>

definition apply_patch :: "ReviewPatch \<Rightarrow> Review \<Rightarrow> Review" where
  "apply_patch p r =
     \<lparr> hostawayId = set_field (p_hostawayId p) (hostawayId r),
       rtype = set_field (p_type p) (rtype r),
       status = set_field (p_status p) (status r),
       rating = set_field (p_rating p) (rating r),
       publicReview = set_field (p_publicReview p) (publicReview r),
       privateReview = set_field (p_privateReview p) (privateReview r),
       reviewCategories = set_field (p_reviewCategories p) (reviewCategories r),
       submittedAt = set_field (p_submittedAt p) (submittedAt r),
       guestName = set_field (p_guestName p) (guestName r),
       listingId = set_field (p_listingId p) (listingId r),
       listingName = set_field (p_listingName p) (listingName r),
       channel = set_field (p_channel p) (channel r),
       isApprovedForPublic = set_field (p_isApprovedForPublic p) (isApprovedForPublic r),
       approvedBy = set_field (p_approvedBy p) (approvedBy r),
       approvedAt = set_field (p_approvedAt p) (approvedAt r),
       managerNotes = set_field (p_managerNotes p) (managerNotes r),
       averageCategoryRating = set_field (p_averageCategoryRating p) (averageCategoryRating r) \<rparr>"

text \<open>The pre-save hook: with at least one category, the average becomes the sum of
  the ratings over their number; with none, the field is left as it is.\<close>

definition pre_save :: "Review \<Rightarrow> Review" where
  "pre_save this =
     (if length (reviewCategories this) > 0
      then let sum = foldl (\<lambda>acc cat. acc + c_rating cat) 0 (reviewCategories this)
           in this\<lparr> averageCategoryRating := Some (sum / of_nat (length (reviewCategories this))) \<rparr>
      else this)"

text \<open>\<^verbatim>\<open>new this.reviewModel(reviewData)\<close>: the schema's defaults where the data holds
  nothing; the computed average has no default. The schema's validation, which runs
  on save before the hook: required fields present (a required string is not empty),
  the two enumerations, and ratings within 0 and 10.\<close>

definition required_present :: "ReviewPatch \<Rightarrow> bool" where
  "required_present p \<longleftrightarrow>
     p_hostawayId p \<noteq> None \<and> or_null (p_type p) \<noteq> None \<and> or_null (p_status p) \<noteq> None \<and>
     or_null (p_publicReview p) \<noteq> None \<and> p_submittedAt p \<noteq> None \<and>
     or_null (p_guestName p) \<noteq> None \<and> or_null (p_listingId p) \<noteq> None \<and>
     or_null (p_listingName p) \<noteq> None"

definition new_document :: "ReviewPatch \<Rightarrow> Review" where
  "new_document p =
     \<lparr> hostawayId = the (p_hostawayId p),
       rtype = the (p_type p),
       status = the (p_status p),
       rating = set_field (p_rating p) None,
       publicReview = the (p_publicReview p),
       privateReview = set_field (p_privateReview p) None,
       reviewCategories = set_field (p_reviewCategories p) [],
       submittedAt = the (p_submittedAt p),
       guestName = the (p_guestName p),
       listingId = the (p_listingId p),
       listingName = the (p_listingName p),
       channel = set_field (p_channel p) ''hostaway'',
       isApprovedForPublic = set_field (p_isApprovedForPublic p) False,
       approvedBy = set_field (p_approvedBy p) None,
       approvedAt = set_field (p_approvedAt p) None,
       managerNotes = set_field (p_managerNotes p) None,
       averageCategoryRating = set_field (p_averageCategoryRating p) None \<rparr>"

definition in_range :: "number \<Rightarrow> bool" where
  "in_range x \<longleftrightarrow> 0 \<le> x \<and> x \<le> 10"

definition valid_document :: "Review \<Rightarrow> bool" where
  "valid_document r \<longleftrightarrow>
     rtype r \<in> {''host-to-guest'', ''guest-to-host''} \<and>
     status r \<in> {''published'', ''pending'', ''draft''} \<and>
     (case rating r of None \<Rightarrow> True | Some x \<Rightarrow> in_range x) \<and>
     list_all (\<lambda>cat. category cat \<noteq> [] \<and> in_range (c_rating cat)) (reviewCategories r)"


section \<open>Repository (reviews.repository.ts)\<close>

text \<open>
  The collection is the list of stored documents with their primary keys, in
  insertion order. A primary key is an ObjectId, written as 24 hexadecimal digits and
  compared without regard to the case of the letters. A query by primary key casts
  its argument first, and the cast of a string that is not 24 hexadecimal digits
  fails with a CastError (Mongoose 8, the version the README names). The store's key generator is a counter (for fewer than
  \<open>10^23\<close> documents); a generated key begins with a letter. The schema's
  \<^verbatim>\<open>timestamps\<close> fields are not part of the model, and neither are the message
  texts of the exceptions.
\<close>

type_synonym collection = "(string \<times> Review) list"

record database =
  docs :: collection
  next_oid :: nat

datatype error =
  NotFoundException
| BadRequestException
| CastError
| ValidationError
| DuplicateKeyError
| StoreError
| DivideByZero

definition digit_char :: "nat \<Rightarrow> char" where
  "digit_char d = char_of (48 + d)"

function show_nat :: "nat \<Rightarrow> string" where
  "show_nat n = (if n < 10 then [digit_char n] else show_nat (n div 10) @ [digit_char (n mod 10)])"
  by pat_completeness auto
termination
  by (relation "measure id") auto

definition show_int :: "int \<Rightarrow> string" where
  "show_int i = (if i < 0 then CHR ''-'' # show_nat (nat (- i)) else show_nat (nat i))"

definition oid_of :: "nat \<Rightarrow> string" where
  "oid_of n = ''a'' @ replicate (23 - length (show_nat n)) CHR ''0'' @ show_nat n"

definition is_hex :: "char \<Rightarrow> bool" where
  "is_hex c \<longleftrightarrow>
     is_digit c \<or> (97 \<le> code c \<and> code c \<le> 102) \<or> (65 \<le> code c \<and> code c \<le> 70)"

definition castObjectId :: "string \<Rightarrow> string option" where
  "castObjectId s = (if length s = 24 \<and> list_all is_hex s then Some (toLowerCase s) else None)"

definition lookup :: "collection \<Rightarrow> string \<Rightarrow> (string \<times> Review) option" where
  "lookup c oid = find (\<lambda>(k, r). toLowerCase k = oid) c"

definition findById :: "collection \<Rightarrow> string \<Rightarrow> error + Review option" where
  "findById c ident =
     (case castObjectId ident of
        None \<Rightarrow> Inl CastError
      | Some oid \<Rightarrow> Inr (map_option snd (lookup c oid)))"

definition findByHostawayId :: "collection \<Rightarrow> int \<Rightarrow> (string \<times> Review) option" where
  "findByHostawayId c h = find (\<lambda>(k, r). hostawayId r = h) c"

text \<open>An update of one document changes the first one that matches.\<close>

fun update_first :: "(string \<times> Review \<Rightarrow> bool) \<Rightarrow> (Review \<Rightarrow> Review) \<Rightarrow> collection \<Rightarrow> collection" where
  "update_first P f [] = []"
| "update_first P f (d # c) =
     (if P d then (fst d, f (snd d)) # c else d # update_first P f c)"

fun delete_first :: "(string \<times> Review \<Rightarrow> bool) \<Rightarrow> collection \<Rightarrow> collection" where
  "delete_first P [] = []"
| "delete_first P (d # c) = (if P d then c else d # delete_first P c)"

text \<open>\<^verbatim>\<open>create\<close>: build the document, validate, run the pre-save hook, insert. The unique
  index on \<^verbatim>\<open>hostawayId\<close> refuses a second document with the same value.\<close>

definition repo_create :: "database \<Rightarrow> ReviewPatch \<Rightarrow> error + (string \<times> Review) \<times> database" where
  "repo_create db reviewData =
     (if \<not> required_present reviewData then Inl ValidationError
      else let review = new_document reviewData
           in if \<not> valid_document review then Inl ValidationError
              else let saved = pre_save review; key = oid_of (next_oid db)
                   in if findByHostawayId (docs db) (hostawayId saved) \<noteq> None
                      then Inl DuplicateKeyError
                      else Inr ((key, saved),
                             db\<lparr> docs := docs db @ [(key, saved)], next_oid := Suc (next_oid db) \<rparr>))"

text \<open>\<^verbatim>\<open>bulkUpsert\<close>: one \<^verbatim>\<open>updateOne\<close> with \<^verbatim>\<open>upsert\<close> per review, in order, filtered by
  \<^verbatim>\<open>hostawayId\<close>, setting every field of the normalized review. The service passes
  normalized reviews, so that is the argument here. A write like this runs no save
  hook. An inserted document takes the manager fields from the schema's defaults. A
  document that is found counts as modified: the write also sets its update time and
  gives its categories new subdocument keys.\<close>

definition set_normalized :: "NormalizedReview \<Rightarrow> Review \<Rightarrow> Review" where
  "set_normalized n r =
     r\<lparr> hostawayId := n_hostawayId n,
        rtype := n_type n,
        status := n_status n,
        rating := n_rating n,
        publicReview := n_publicReview n,
        privateReview := n_privateReview n,
        reviewCategories := n_reviewCategories n,
        submittedAt := n_submittedAt n,
        guestName := n_guestName n,
        listingId := n_listingId n,
        listingName := n_listingName n,
        channel := n_channel n,
        averageCategoryRating := Some (n_averageCategoryRating n) \<rparr>"

definition inserted_from :: "NormalizedReview \<Rightarrow> Review" where
  "inserted_from n =
     \<lparr> hostawayId = n_hostawayId n, rtype = n_type n, status = n_status n,
       rating = n_rating n, publicReview = n_publicReview n,
       privateReview = n_privateReview n, reviewCategories = n_reviewCategories n,
       submittedAt = n_submittedAt n, guestName = n_guestName n,
       listingId = n_listingId n, listingName = n_listingName n, channel = n_channel n,
       isApprovedForPublic = False, approvedBy = None, approvedAt = None,
       managerNotes = None, averageCategoryRating = Some (n_averageCategoryRating n) \<rparr>"

record upsert_result =
  inserted :: nat
  updated :: nat

definition upsert_one :: "NormalizedReview \<Rightarrow> upsert_result \<times> database \<Rightarrow> upsert_result \<times> database" where
  "upsert_one review acc =
     (let res = fst acc; db = snd acc
      in case findByHostawayId (docs db) (n_hostawayId review) of
           Some (k, r) \<Rightarrow>
             (res\<lparr> updated := updated res + 1 \<rparr>,
              db\<lparr> docs := update_first (\<lambda>(k, r). hostawayId r = n_hostawayId review)
                             (set_normalized review) (docs db) \<rparr>)
         | None \<Rightarrow>
             (res\<lparr> inserted := inserted res + 1 \<rparr>,
              db\<lparr> docs := docs db @ [(oid_of (next_oid db), inserted_from review)],
                  next_oid := Suc (next_oid db) \<rparr>))"

definition bulkUpsert :: "database \<Rightarrow> NormalizedReview list \<Rightarrow> upsert_result \<times> database" where
  "bulkUpsert db reviews = foldl (\<lambda>acc review. upsert_one review acc) (\<lparr> inserted = 0, updated = 0 \<rparr>, db) reviews"

text \<open>\<^verbatim>\<open>update\<close> is \<^verbatim>\<open>findByIdAndUpdate(id, updateData, { new: true })\<close>: the fields of the
  update are set on the stored document, which is returned as updated; no save hook
  runs. \<^verbatim>\<open>delete\<close> is \<^verbatim>\<open>findByIdAndDelete\<close>. Both cast the id.\<close>

definition repo_update :: "collection \<Rightarrow> string \<Rightarrow> ReviewPatch \<Rightarrow> error + Review option \<times> collection" where
  "repo_update c ident updateData =
     (case castObjectId ident of
        None \<Rightarrow> Inl CastError
      | Some oid \<Rightarrow>
          Inr (case lookup c oid of
                 None \<Rightarrow> (None, c)
               | Some (k, r) \<Rightarrow>
                   (Some (apply_patch updateData r),
                    update_first (\<lambda>(k, r). toLowerCase k = oid) (apply_patch updateData) c)))"

definition repo_delete :: "collection \<Rightarrow> string \<Rightarrow> error + Review option \<times> collection" where
  "repo_delete c ident =
     (case castObjectId ident of
        None \<Rightarrow> Inl CastError
      | Some oid \<Rightarrow>
          Inr (case lookup c oid of
                 None \<Rightarrow> (None, c)
               | Some (k, r) \<Rightarrow> (Some r, delete_first (\<lambda>(k, r). toLowerCase k = oid) c)))"

text \<open>\<^verbatim>\<open>bulkApprove\<close> is one \<^verbatim>\<open>updateMany\<close> over the documents whose key is in the list.
  Every id of the list is cast before anything is written, and one that is not an
  ObjectId fails the whole call. Its \<^verbatim>\<open>modifiedCount\<close> counts the matched documents that
  the write changed.\<close>

definition approve_fields :: "string \<Rightarrow> date \<Rightarrow> Review \<Rightarrow> Review" where
  "approve_fields who now r =
     r\<lparr> isApprovedForPublic := True, approvedBy := Some who, approvedAt := Some now \<rparr>"

definition among :: "string list \<Rightarrow> string \<Rightarrow> bool" where
  "among ids k \<longleftrightarrow> toLowerCase k \<in> set (map toLowerCase ids)"

definition repo_bulkApprove :: "collection \<Rightarrow> string list \<Rightarrow> string \<Rightarrow> date \<Rightarrow> error + nat \<times> collection" where
  "repo_bulkApprove c reviewIds who now =
     (if \<not> list_all (\<lambda>i. castObjectId i \<noteq> None) reviewIds then Inl CastError
      else Inr (length (filter (\<lambda>(k, r). among reviewIds k \<and> approve_fields who now r \<noteq> r) c),
                map (\<lambda>(k, r). if among reviewIds k then (k, approve_fields who now r) else (k, r)) c))"


subsection \<open>Queries\<close>

text \<open>A stable insertion sort by a comparison; the store's sort gives some list in
  that order.\<close>

fun insert_by :: "('a \<Rightarrow> 'a \<Rightarrow> bool) \<Rightarrow> 'a \<Rightarrow> 'a list \<Rightarrow> 'a list" where
  "insert_by le x [] = [x]"
| "insert_by le x (y # ys) = (if le x y then x # y # ys else y # insert_by le x ys)"

definition sort_by :: "('a \<Rightarrow> 'a \<Rightarrow> bool) \<Rightarrow> 'a list \<Rightarrow> 'a list" where
  "sort_by le xs = foldr (insert_by le) xs []"

text \<open>Comparison of values that may be absent: absent sorts below every number.\<close>

fun opt_less :: "number option \<Rightarrow> number option \<Rightarrow> bool" where
  "opt_less None (Some y) = True"
| "opt_less (Some x) (Some y) = (x < y)"
| "opt_less a None = False"





definition holds :: "'a option \<Rightarrow> ('a \<Rightarrow> bool) \<Rightarrow> bool" where
  "holds cond P = (case cond of None \<Rightarrow> True | Some v \<Rightarrow> P v)"











text \<open>\<^verbatim>\<open>findApprovedReviews\<close>: approved and published, of one listing when a listing id
  is given, newest first, at most \<open>limit\<close> of them (a limit of 0 is no limit), with the
  two manager fields left out of the result.\<close>

definition select_public :: "Review \<Rightarrow> Review" where
  "select_public r = r\<lparr> managerNotes := None, approvedBy := None \<rparr>"

definition findApprovedReviews :: "collection \<Rightarrow> string option \<Rightarrow> nat \<Rightarrow> Review list" where
  "findApprovedReviews c listing count =
     (let found = filter (\<lambda>r. isApprovedForPublic r \<and> status r = ''published'' \<and>
                              holds (or_null listing) (\<lambda>v. listingId r = v)) (map snd c);
          sorted = sort_by (\<lambda>a b. submittedAt b \<le> submittedAt a) found
      in map select_public (if count = 0 then sorted else take count sorted))"


subsection \<open>Aggregation stages\<close>

text \<open>\<^verbatim>\<open>$group\<close>: one group for each key value that occurs, holding the documents with
  that key. \<^verbatim>\<open>$avg\<close>, \<^verbatim>\<open>$min\<close> and \<^verbatim>\<open>$max\<close> read the documents that have the field
  and give \<^verbatim>\<open>null\<close> when none has. \<^verbatim>\<open>$divide\<close> by zero fails.\<close>

definition group_by :: "('a \<Rightarrow> 'k) \<Rightarrow> 'a list \<Rightarrow> ('k \<times> 'a list) list" where
  "group_by key xs = map (\<lambda>k. (k, filter (\<lambda>x. key x = k) xs)) (remdups (map key xs))"

definition present :: "'a option list \<Rightarrow> 'a list" where
  "present vs = concat (map (\<lambda>v. case v of None \<Rightarrow> [] | Some x \<Rightarrow> [x]) vs)"

definition avg_of :: "number option list \<Rightarrow> number option" where
  "avg_of vs = (if present vs = [] then None else Some (sum_list (present vs) / of_nat (length (present vs))))"

definition min_of :: "'a::linorder list \<Rightarrow> 'a option" where
  "min_of xs = (case xs of [] \<Rightarrow> None | x # ys \<Rightarrow> Some (foldl min x ys))"

definition max_of :: "'a::linorder list \<Rightarrow> 'a option" where
  "max_of xs = (case xs of [] \<Rightarrow> None | x # ys \<Rightarrow> Some (foldl max x ys))"

definition count_approved :: "Review list \<Rightarrow> nat" where
  "count_approved g = length (filter isApprovedForPublic g)"

definition count_pending :: "Review list \<Rightarrow> nat" where
  "count_pending g = length (filter (\<lambda>r. \<not> isApprovedForPublic r) g)"

definition mongo_divide :: "number \<Rightarrow> number \<Rightarrow> error + number" where
  "mongo_divide a b = (if b = 0 then Inl DivideByZero else Inr (a / b))"

fun collect :: "(error + 'a) list \<Rightarrow> error + 'a list" where
  "collect [] = Inr []"
| "collect (x # xs) =
     (case x of Inl e \<Rightarrow> Inl e
      | Inr v \<Rightarrow> (case collect xs of Inl e \<Rightarrow> Inl e | Inr vs \<Rightarrow> Inr (v # vs)))"

subsection \<open>Statistics and trend of the repository\<close>

record overview =
  totalReviews :: nat
  averageRating :: "number option"
  approvedCount :: nat
  pendingCount :: nat

record channel_group =
  cg_id :: string
  cg_count :: nat
  cg_avgRating :: "number option"

record property_group =
  pg_listingId :: string
  pg_listingName :: string
  pg_count :: nat
  pg_avgRating :: "number option"
  pg_approvedCount :: nat

record raw_statistics =
  s_overview :: "overview list"
  s_byChannel :: "channel_group list"
  s_byProperty :: "property_group list"
  s_ratingDistribution :: "(number option \<times> nat) list"

definition boundaries :: "number list" where
  "boundaries = [0, 2, 4, 6, 8, 10]"

text \<open>\<^verbatim>\<open>$bucket\<close>: the lower boundary of the interval (closed below, open above) that
  holds the value; \<open>None\<close> is the default bucket \<^verbatim>\<open>'Other'\<close>.\<close>

definition bucket_of :: "number option \<Rightarrow> number option" where
  "bucket_of v =
     (case v of None \<Rightarrow> None
      | Some x \<Rightarrow> map_option fst (find (\<lambda>(lo, hi). lo \<le> x \<and> x < hi) (zip boundaries (tl boundaries))))"

definition bucket_le :: "number option \<Rightarrow> number option \<Rightarrow> bool" where
  "bucket_le a b = (case b of None \<Rightarrow> True | Some y \<Rightarrow> (case a of None \<Rightarrow> False | Some x \<Rightarrow> x \<le> y))"

definition repo_getStatistics :: "collection \<Rightarrow> raw_statistics" where
  "repo_getStatistics c =
     (let rs = map snd c
      in \<lparr> s_overview =
             map (\<lambda>(k, g). \<lparr> totalReviews = length g,
                             averageRating = avg_of (map averageCategoryRating g),
                             approvedCount = count_approved g,
                             pendingCount = count_pending g \<rparr>)
               (group_by (\<lambda>r. ()) rs),
           s_byChannel =
             map (\<lambda>(k, g). \<lparr> cg_id = k, cg_count = length g,
                             cg_avgRating = avg_of (map averageCategoryRating g) \<rparr>)
               (group_by channel rs),
           s_byProperty =
             take 10 (sort_by (\<lambda>a b. pg_count b \<le> pg_count a)
               (map (\<lambda>(k, g). \<lparr> pg_listingId = fst k, pg_listingName = snd k,
                                 pg_count = length g,
                                 pg_avgRating = avg_of (map averageCategoryRating g),
                                 pg_approvedCount = count_approved g \<rparr>)
                  (group_by (\<lambda>r. (listingId r, listingName r)) rs))),
           s_ratingDistribution =
             sort_by (\<lambda>a b. bucket_le (fst a) (fst b))
               (map (\<lambda>(k, g). (k, length g)) (group_by (\<lambda>r. bucket_of (averageCategoryRating r)) rs)) \<rparr>)"

record trend_group =
  tg_id :: string
  tg_count :: nat
  tg_avgRating :: "number option"

text \<open>\<^verbatim>\<open>getReviewsTrend\<close>: the documents submitted since the start date, grouped by the
  day of submission as the store prints it, in ascending order of that string. The
  start date is the current time with its day of the month set back by \<open>days\<close>; that
  calendar step of the runtime and the store's date printer are parameters.\<close>

definition repo_getReviewsTrend ::
  "(date \<Rightarrow> int \<Rightarrow> date) \<Rightarrow> (date \<Rightarrow> string) \<Rightarrow> collection \<Rightarrow> int \<Rightarrow> date \<Rightarrow> trend_group list" where
  "repo_getReviewsTrend daysBefore dateToString c days now =
     (let startDate = daysBefore now days
      in sort_by (\<lambda>a b. tg_id a \<le> tg_id b)
           (map (\<lambda>(k, g). \<lparr> tg_id = k, tg_count = length g,
                             tg_avgRating = avg_of (map averageCategoryRating g) \<rparr>)
              (group_by (\<lambda>r. dateToString (submittedAt r))
                 (filter (\<lambda>r. startDate \<le> submittedAt r) (map snd c)))))"


section \<open>Analytics pipelines (analytics.service.ts)\<close>

record AnalyticsFilterDto =
  a_startDate :: "string option"
  a_endDate :: "string option"
  a_listingId :: "string option"
  a_channel :: "string option"
  a_days :: "int option"

record match_stage =
  m_submittedAt_gte :: "date option"
  m_submittedAt_lte :: "date option"
  m_channel :: "string option"
  m_listingId :: "string option"

text \<open>\<^verbatim>\<open>buildDateFilter\<close> gives the date conditions; a caller adds the channel and the
  listing when its filter has them.\<close>

definition buildDateFilter :: "(string \<Rightarrow> date) \<Rightarrow> AnalyticsFilterDto \<Rightarrow> match_stage" where
  "buildDateFilter parseDate filters =
     \<lparr> m_submittedAt_gte = map_option parseDate (or_null (a_startDate filters)),
       m_submittedAt_lte = map_option parseDate (or_null (a_endDate filters)),
       m_channel = None, m_listingId = None \<rparr>"

definition matches_stage :: "match_stage \<Rightarrow> Review \<Rightarrow> bool" where
  "matches_stage m r \<longleftrightarrow>
     holds (m_submittedAt_gte m) (\<lambda>v. v \<le> submittedAt r) \<and>
     holds (m_submittedAt_lte m) (\<lambda>v. submittedAt r \<le> v) \<and>
     holds (m_channel m) (\<lambda>v. channel r = v) \<and>
     holds (m_listingId m) (\<lambda>v. listingId r = v)"

definition matched :: "match_stage \<Rightarrow> collection \<Rightarrow> Review list" where
  "matched m c = filter (matches_stage m) (map snd c)"

subsection \<open>Property breakdown\<close>

record property_stats =
  ps_listingId :: string
  ps_listingName :: string
  ps_totalReviews :: nat
  ps_approvedReviews :: nat
  ps_pendingReviews :: nat
  ps_avgRating :: "number option"
  ps_minRating :: "number option"
  ps_maxRating :: "number option"
  ps_latestReviewDate :: "date option"

record property_entry =
  pe_listingId :: string
  pe_listingName :: string
  pe_totalReviews :: nat
  pe_approvedReviews :: nat
  pe_pendingReviews :: nat
  pe_avgRating :: "number option"
  pe_minRating :: "number option"
  pe_maxRating :: "number option"
  pe_approvalRate :: number
  pe_latestReviewDate :: "date option"
  pe_performance :: string

text \<open>The \<^verbatim>\<open>$group\<close> stage by listing id and name (the pushed category lists are not
  read by any later stage).\<close>

definition group_properties :: "Review list \<Rightarrow> property_stats list" where
  "group_properties rs =
     map (\<lambda>(k, g). \<lparr> ps_listingId = fst k, ps_listingName = snd k,
                     ps_totalReviews = length g,
                     ps_approvedReviews = count_approved g,
                     ps_pendingReviews = count_pending g,
                     ps_avgRating = avg_of (map averageCategoryRating g),
                     ps_minRating = min_of (present (map averageCategoryRating g)),
                     ps_maxRating = max_of (present (map averageCategoryRating g)),
                     ps_latestReviewDate = max_of (map submittedAt g) \<rparr>)
       (group_by (\<lambda>r. (listingId r, listingName r)) rs)"

text \<open>\<^verbatim>\<open>{ $gte: ['$avgRating', x] }\<close>: \<^verbatim>\<open>null\<close> is below every number.\<close>

definition gte :: "number option \<Rightarrow> number \<Rightarrow> bool" where
  "gte a x = (case a of None \<Rightarrow> False | Some v \<Rightarrow> x \<le> v)"

definition performance :: "number option \<Rightarrow> string" where
  "performance avgRating =
     (if gte avgRating (17 / 2) then ''excellent''
      else if gte avgRating 7 then ''good''
      else if gte avgRating 5 then ''fair''
      else ''needs_improvement'')"

text \<open>The \<^verbatim>\<open>$project\<close> stage. Every expression reads the fields of the group, so the
  tier is computed from the average of the group, and the average is shown rounded.\<close>

definition project_property :: "property_stats \<Rightarrow> error + property_entry" where
  "project_property g =
     (case mongo_divide (of_nat (ps_approvedReviews g)) (of_nat (ps_totalReviews g)) of
        Inl e \<Rightarrow> Inl e
      | Inr q \<Rightarrow>
          Inr \<lparr> pe_listingId = ps_listingId g,
                pe_listingName = ps_listingName g,
                pe_totalReviews = ps_totalReviews g,
                pe_approvedReviews = ps_approvedReviews g,
                pe_pendingReviews = ps_pendingReviews g,
                pe_avgRating = map_option round2 (ps_avgRating g),
                pe_minRating = map_option round2 (ps_minRating g),
                pe_maxRating = map_option round2 (ps_maxRating g),
                pe_approvalRate = round2 (q * 100),
                pe_latestReviewDate = ps_latestReviewDate g,
                pe_performance = performance (ps_avgRating g) \<rparr>)"

text \<open>\<^verbatim>\<open>{ $sort: { avgRating: -1, totalReviews: -1 } }\<close>.\<close>

definition property_order :: "property_entry \<Rightarrow> property_entry \<Rightarrow> bool" where
  "property_order a b \<longleftrightarrow>
     opt_less (pe_avgRating b) (pe_avgRating a) \<or>
     (pe_avgRating a = pe_avgRating b \<and> pe_totalReviews b \<le> pe_totalReviews a)"

definition aggregate_properties :: "match_stage \<Rightarrow> collection \<Rightarrow> error + property_entry list" where
  "aggregate_properties matchStage c =
     (case collect (map project_property (group_properties (matched matchStage c))) of
        Inl e \<Rightarrow> Inl e
      | Inr es \<Rightarrow> Inr (sort_by property_order es))"

record property_result =
  properties :: "property_entry list"
  totalProperties :: nat
  generatedAt :: date

subsection \<open>Channel breakdown and overview\<close>

record channel_entry =
  ce_channel :: string
  ce_count :: nat
  ce_avgRating :: "number option"
  ce_approvedCount :: nat
  ce_approvalRate :: number

definition project_channel :: "string \<times> Review list \<Rightarrow> error + channel_entry" where
  "project_channel kg =
     (let g = snd kg
      in case mongo_divide (of_nat (count_approved g)) (of_nat (length g)) of
           Inl e \<Rightarrow> Inl e
         | Inr q \<Rightarrow>
             Inr \<lparr> ce_channel = fst kg, ce_count = length g,
                   ce_avgRating = map_option round2 (avg_of (map averageCategoryRating g)),
                   ce_approvedCount = count_approved g,
                   ce_approvalRate = round2 (q * 100) \<rparr>)"

definition getChannelBreakdown :: "match_stage \<Rightarrow> collection \<Rightarrow> error + channel_entry list" where
  "getChannelBreakdown dateFilter c =
     (case collect (map project_channel (group_by channel (matched dateFilter c))) of
        Inl e \<Rightarrow> Inl e
      | Inr es \<Rightarrow> Inr (sort_by (\<lambda>a b. ce_count b \<le> ce_count a) es))"

record overview_stats =
  os_totalReviews :: nat
  os_avgRating :: "number option"
  os_approvedCount :: nat
  os_pendingCount :: nat
  os_uniquePropertiesCount :: nat
  os_approvalRate :: number

definition project_overview :: "unit \<times> Review list \<Rightarrow> error + overview_stats" where
  "project_overview kg =
     (let g = snd kg
      in case mongo_divide (of_nat (count_approved g)) (of_nat (length g)) of
           Inl e \<Rightarrow> Inl e
         | Inr q \<Rightarrow>
             Inr \<lparr> os_totalReviews = length g,
                   os_avgRating = map_option round2 (avg_of (map averageCategoryRating g)),
                   os_approvedCount = count_approved g,
                   os_pendingCount = count_pending g,
                   os_uniquePropertiesCount = length (remdups (map listingId g)),
                   os_approvalRate = round2 (q * 100) \<rparr>)"

text \<open>\<^verbatim>\<open>getOverviewStats\<close>: the single group of all matching documents, or the constant
  object when the pipeline gives no group.\<close>

definition getOverviewStats :: "match_stage \<Rightarrow> collection \<Rightarrow> error + overview_stats" where
  "getOverviewStats dateFilter c =
     (case collect (map project_overview (group_by (\<lambda>r. ()) (matched dateFilter c))) of
        Inl e \<Rightarrow> Inl e
      | Inr [] \<Rightarrow> Inr \<lparr> os_totalReviews = 0, os_avgRating = Some 0, os_approvedCount = 0,
                         os_pendingCount = 0, os_uniquePropertiesCount = 0, os_approvalRate = 0 \<rparr>
      | Inr (result # rest) \<Rightarrow> Inr result)"


section \<open>Cache and service (reviews.service.ts)\<close>

record stats_channel =
  sc_channel :: string
  sc_count :: nat
  sc_avgRating :: number

record top_property =
  tp_listingId :: string
  tp_listingName :: string
  tp_reviewCount :: nat
  tp_avgRating :: number
  tp_approvedCount :: nat
  tp_approvalRate :: number

record statistics =
  st_overview :: overview
  st_byChannel :: "stats_channel list"
  st_topProperties :: "top_property list"
  st_ratingDistribution :: "(number option \<times> nat) list"

record trend_item =
  ti_date :: string
  ti_count :: nat
  ti_avgRating :: number

datatype cache_value =
  CachedReviews "Review list"
| CachedStatistics statistics
| CachedTrend "trend_item list"
| CachedProperties property_result

text \<open>The cache maps a key to a value and the time to live it was stored with. Expiry
  is not modelled: an entry stays until it is deleted. \<^verbatim>\<open>del\<close> removes the entry stored
  under exactly the key it is given.\<close>

type_synonym cache = "string \<Rightarrow> (cache_value \<times> nat) option"

definition cache_get :: "cache \<Rightarrow> string \<Rightarrow> cache_value option" where
  "cache_get c k = map_option fst (c k)"

definition cache_set :: "cache \<Rightarrow> string \<Rightarrow> cache_value \<Rightarrow> nat \<Rightarrow> cache" where
  "cache_set c k v ttl = c(k \<mapsto> (v, ttl))"

definition cache_del :: "cache \<Rightarrow> string \<Rightarrow> cache" where
  "cache_del c k = c(k := None)"

record state =
  db :: database
  cache :: cache

definition STATISTICS :: string where "STATISTICS = ''reviews:statistics''"
definition APPROVED_REVIEWS :: string where "APPROVED_REVIEWS = ''reviews:approved''"
definition TREND :: string where "TREND = ''reviews:trend''"

definition CACHE_KEYS :: "string list" where
  "CACHE_KEYS = [STATISTICS, APPROVED_REVIEWS, TREND]"

definition invalidateCache :: "cache \<Rightarrow> cache" where
  "invalidateCache c =
     (let keys = CACHE_KEYS;
          c1 = foldl cache_del c keys;
          c2 = cache_del c1 (APPROVED_REVIEWS @ '':*'');
          c3 = cache_del c2 (TREND @ '':*'')
      in c3)"

definition invalidated :: "state \<Rightarrow> state" where
  "invalidated st = st\<lparr> cache := invalidateCache (cache st) \<rparr>"

subsection \<open>Mutations\<close>

record sync_result =
  sr_inserted :: nat
  sr_updated :: nat
  sr_total :: nat

definition syncReviews :: "state \<Rightarrow> NormalizedReview list \<Rightarrow> error + sync_result \<times> state" where
  "syncReviews st normalizedReviews =
     (if length normalizedReviews = 0 then Inl BadRequestException
      else let result = bulkUpsert (db st) normalizedReviews
           in Inr (\<lparr> sr_inserted = inserted (fst result), sr_updated = updated (fst result),
                     sr_total = length normalizedReviews \<rparr>,
                   invalidated (st\<lparr> db := snd result \<rparr>)))"

record CreateReviewDto =
  cr_hostawayId :: int
  cr_type :: string
  cr_status :: string
  cr_rating :: "number option"
  cr_publicReview :: string
  cr_privateReview :: "string option"
  cr_reviewCategories :: "ReviewCategory list"
  cr_submittedAt :: string
  cr_guestName :: string
  cr_listingId :: string
  cr_listingName :: string
  cr_channel :: "string option"

definition transformCreateDtoToEntity :: "(string \<Rightarrow> date) \<Rightarrow> CreateReviewDto \<Rightarrow> ReviewPatch" where
  "transformCreateDtoToEntity parseDate dto =
     empty_patch\<lparr>
       p_hostawayId := Some (cr_hostawayId dto),
       p_type := Some (cr_type dto),
       p_status := Some (cr_status dto),
       p_rating := map_option Some (cr_rating dto),
       p_publicReview := Some (cr_publicReview dto),
       p_privateReview := map_option Some (cr_privateReview dto),
       p_reviewCategories := Some (cr_reviewCategories dto),
       p_submittedAt := Some (parseDate (cr_submittedAt dto)),
       p_guestName := Some (cr_guestName dto),
       p_listingId := Some (cr_listingId dto),
       p_listingName := Some (cr_listingName dto),
       p_channel := Some (or_else (cr_channel dto) ''hostaway'') \<rparr>"

definition create :: "(string \<Rightarrow> date) \<Rightarrow> state \<Rightarrow> CreateReviewDto \<Rightarrow> error + (string \<times> Review) \<times> state" where
  "create parseDate st createReviewDto =
     (case findByHostawayId (docs (db st)) (cr_hostawayId createReviewDto) of
        Some existing \<Rightarrow>
          Inl BadRequestException
      | None \<Rightarrow>
          (case repo_create (db st) (transformCreateDtoToEntity parseDate createReviewDto) of
             Inl e \<Rightarrow> Inl e
           | Inr (review, db') \<Rightarrow> Inr (review, invalidated (st\<lparr> db := db' \<rparr>))))"

record UpdateReviewDto =
  u_isApprovedForPublic :: "bool option"
  u_managerNotes :: "string option"
  u_approvedBy :: "string option"

text \<open>\<^verbatim>\<open>update\<close>: the update data starts as a copy of the request's fields. An approval of
  a review that is not approved adds the time, and the approver when the request
  names one; an unapproval sets both to \<^verbatim>\<open>null\<close>.\<close>

definition update_data :: "UpdateReviewDto \<Rightarrow> Review \<Rightarrow> date \<Rightarrow> ReviewPatch" where
  "update_data dto review now =
     (let d0 = empty_patch\<lparr> p_isApprovedForPublic := u_isApprovedForPublic dto,
                             p_managerNotes := map_option Some (u_managerNotes dto),
                             p_approvedBy := map_option Some (u_approvedBy dto) \<rparr>;
          d1 = (if u_isApprovedForPublic dto = Some True \<and> \<not> isApprovedForPublic review
                then let d = d0\<lparr> p_approvedAt := Some (Some now) \<rparr>
                     in (if or_null (u_approvedBy dto) \<noteq> None
                         then d\<lparr> p_approvedBy := Some (u_approvedBy dto) \<rparr> else d)
                else d0);
          d2 = (if u_isApprovedForPublic dto = Some False
                then d1\<lparr> p_approvedAt := Some None, p_approvedBy := Some None \<rparr>
                else d1)
      in d2)"

definition update :: "state \<Rightarrow> string \<Rightarrow> UpdateReviewDto \<Rightarrow> date \<Rightarrow> error + Review option \<times> state" where
  "update st ident updateReviewDto now =
     (case findById (docs (db st)) ident of
        Inl e \<Rightarrow> Inl e
      | Inr None \<Rightarrow> Inl NotFoundException
      | Inr (Some review) \<Rightarrow>
          (case repo_update (docs (db st)) ident (update_data updateReviewDto review now) of
             Inl e \<Rightarrow> Inl e
           | Inr res \<Rightarrow> Inr (fst res, invalidated (st\<lparr> db := (db st)\<lparr> docs := snd res \<rparr> \<rparr>))))"

text \<open>\<^verbatim>\<open>approveReview\<close>: an identifier that matches \<^verbatim>\<open>/^\d+$/\<close> is read as a Hostaway
  id, any other as a primary key. \<^verbatim>\<open>parseInt\<close> gives the double nearest to the decimal
  numeral (of two nearest, the one with an even significand), and \<^verbatim>\<open>Infinity\<close>, here
  \<open>None\<close>, when that takes more than 1024 bits; no stored id is \<^verbatim>\<open>Infinity\<close>.\<close>

definition isNumeric :: "string \<Rightarrow> bool" where
  "isNumeric s \<longleftrightarrow> s \<noteq> [] \<and> list_all is_digit s"

function bit_length :: "int \<Rightarrow> nat" where
  "bit_length n = (if n \<le> 0 then 0 else Suc (bit_length (n div 2)))"
  by pat_completeness auto
termination
  by (relation "measure nat") auto

definition to_double :: "int \<Rightarrow> int" where
  "to_double n =
     (if bit_length n \<le> 53 then n
      else let shift = bit_length n - 53;
               q = n div 2 ^ shift;
               r = n mod 2 ^ shift;
               half = 2 ^ (shift - 1)
           in (if r < half then q
               else if half < r then q + 1
               else if even q then q else q + 1) * 2 ^ shift)"

definition decimal_value :: "string \<Rightarrow> int" where
  "decimal_value s = foldl (\<lambda>acc c. acc * 10 + (int (code c) - 48)) 0 s"

definition parseInt :: "string \<Rightarrow> int option" where
  "parseInt s =
     (let d = to_double (decimal_value s)
      in if bit_length d \<le> 1024 then Some d else None)"

definition approve_data :: "string option \<Rightarrow> date \<Rightarrow> ReviewPatch" where
  "approve_data approver now =
     empty_patch\<lparr> p_isApprovedForPublic := Some True,
                  p_approvedBy := Some (Some (or_else approver ''admin'')),
                  p_approvedAt := Some (Some now) \<rparr>"

text \<open>The review that \<^verbatim>\<open>approveReview\<close> finds, with its key.\<close>

definition resolve :: "collection \<Rightarrow> string \<Rightarrow> error + string \<times> Review" where
  "resolve c ident =
     (if isNumeric ident
      then (case parseInt ident of
              None \<Rightarrow> Inl NotFoundException
            | Some h \<Rightarrow>
                (case findByHostawayId c h of
                   None \<Rightarrow> Inl NotFoundException
                 | Some kr \<Rightarrow> Inr kr))
      else (case castObjectId ident of
              None \<Rightarrow> Inl CastError
            | Some oid \<Rightarrow>
                (case lookup c oid of
                   None \<Rightarrow> Inl NotFoundException
                 | Some kr \<Rightarrow> Inr kr)))"

definition approveReview :: "state \<Rightarrow> string \<Rightarrow> string option \<Rightarrow> date \<Rightarrow> error + Review option \<times> state" where
  "approveReview st ident approver now =
     (case resolve (docs (db st)) ident of
        Inl e \<Rightarrow> Inl e
      | Inr (key, review) \<Rightarrow>
          (case repo_update (docs (db st)) key (approve_data approver now) of
             Inl e \<Rightarrow> Inl e
           | Inr res \<Rightarrow> Inr (fst res, invalidated (st\<lparr> db := (db st)\<lparr> docs := snd res \<rparr> \<rparr>))))"

record BulkApproveDto =
  reviewIds :: "string list"
  b_approvedBy :: "string option"

definition bulkApprove :: "state \<Rightarrow> BulkApproveDto \<Rightarrow> date \<Rightarrow> error + nat \<times> state" where
  "bulkApprove st bulkApproveDto now =
     (let approver = set_field (b_approvedBy bulkApproveDto) ''admin''
      in if length (reviewIds bulkApproveDto) = 0
         then Inl BadRequestException
         else (case repo_bulkApprove (docs (db st)) (reviewIds bulkApproveDto) approver now of
                 Inl e \<Rightarrow> Inl e
               | Inr res \<Rightarrow> Inr (fst res, invalidated (st\<lparr> db := (db st)\<lparr> docs := snd res \<rparr> \<rparr>))))"

definition remove_review :: "state \<Rightarrow> string \<Rightarrow> error + Review \<times> state" where
  "remove_review st ident =
     (case repo_delete (docs (db st)) ident of
        Inl e \<Rightarrow> Inl e
      | Inr res \<Rightarrow>
          (case fst res of
             None \<Rightarrow> Inl NotFoundException
           | Some review \<Rightarrow> Inr (review, invalidated (st\<lparr> db := (db st)\<lparr> docs := snd res \<rparr> \<rparr>))))"

definition findOne :: "state \<Rightarrow> string \<Rightarrow> error + Review" where
  "findOne st ident =
     (case findById (docs (db st)) ident of
        Inl e \<Rightarrow> Inl e
      | Inr None \<Rightarrow> Inl NotFoundException
      | Inr (Some review) \<Rightarrow> Inr review)"


subsection \<open>Cached reads\<close>

text \<open>A cached value is returned as it is found. The key of an approved-reviews listing
  ends in the listing id (or \<^verbatim>\<open>all\<close>) and the limit, the key of a trend in the number
  of days.\<close>

definition approved_key :: "string option \<Rightarrow> nat \<Rightarrow> string" where
  "approved_key listing count = APPROVED_REVIEWS @ '':'' @ or_else listing ''all'' @ '':'' @ show_nat count"

definition getApprovedReviews :: "state \<Rightarrow> string option \<Rightarrow> nat \<Rightarrow> cache_value \<times> state" where
  "getApprovedReviews st listing count =
     (let cacheKey = approved_key listing count
      in case cache_get (cache st) cacheKey of
           Some cached \<Rightarrow> (cached, st)
         | None \<Rightarrow>
             (let reviews = findApprovedReviews (docs (db st)) listing count
              in (CachedReviews reviews,
                  st\<lparr> cache := cache_set (cache st) cacheKey (CachedReviews reviews) 600 \<rparr>)))"

definition avg_or_zero :: "number option \<Rightarrow> number" where
  "avg_or_zero a = (case a of None \<Rightarrow> 0 | Some x \<Rightarrow> toFixed2 x)"

definition transform_statistics :: "raw_statistics \<Rightarrow> statistics" where
  "transform_statistics stats =
     \<lparr> st_overview =
         (case s_overview stats of
            [] \<Rightarrow> \<lparr> totalReviews = 0, averageRating = Some 0, approvedCount = 0, pendingCount = 0 \<rparr>
          | first # rest \<Rightarrow> first),
       st_byChannel =
         map (\<lambda>item. \<lparr> sc_channel = cg_id item, sc_count = cg_count item,
                       sc_avgRating = avg_or_zero (cg_avgRating item) \<rparr>) (s_byChannel stats),
       st_topProperties =
         map (\<lambda>item. \<lparr> tp_listingId = pg_listingId item,
                       tp_listingName = pg_listingName item,
                       tp_reviewCount = pg_count item,
                       tp_avgRating = avg_or_zero (pg_avgRating item),
                       tp_approvedCount = pg_approvedCount item,
                       tp_approvalRate =
                         toFixed2 ((of_nat (pg_approvedCount item) / of_nat (pg_count item)) * 100) \<rparr>)
           (s_byProperty stats),
       st_ratingDistribution = s_ratingDistribution stats \<rparr>"

definition getStatistics :: "state \<Rightarrow> cache_value \<times> state" where
  "getStatistics st =
     (case cache_get (cache st) STATISTICS of
        Some cached \<Rightarrow> (cached, st)
      | None \<Rightarrow>
          (let transformed = transform_statistics (repo_getStatistics (docs (db st)))
           in (CachedStatistics transformed,
               st\<lparr> cache := cache_set (cache st) STATISTICS (CachedStatistics transformed) 300 \<rparr>)))"

definition trend_key :: "int \<Rightarrow> string" where
  "trend_key days = TREND @ '':'' @ show_int days"

definition getReviewsTrend ::
  "(date \<Rightarrow> int \<Rightarrow> date) \<Rightarrow> (date \<Rightarrow> string) \<Rightarrow> state \<Rightarrow> int \<Rightarrow> date \<Rightarrow> cache_value \<times> state" where
  "getReviewsTrend daysBefore dateToString st days now =
     (let cacheKey = trend_key days
      in case cache_get (cache st) cacheKey of
           Some cached \<Rightarrow> (cached, st)
         | None \<Rightarrow>
             (let trend = repo_getReviewsTrend daysBefore dateToString (docs (db st)) days now;
                  transformed = map (\<lambda>item. \<lparr> ti_date = tg_id item, ti_count = tg_count item,
                                              ti_avgRating = avg_or_zero (tg_avgRating item) \<rparr>) trend
              in (CachedTrend transformed,
                  st\<lparr> cache := cache_set (cache st) cacheKey (CachedTrend transformed) 600 \<rparr>)))"

text \<open>\<^verbatim>\<open>getPropertyBreakdown\<close> of the analytics service, on the same cache. The key is the
  prefix and the JSON text of the filter, whose printer is a parameter.\<close>

definition property_match :: "(string \<Rightarrow> date) \<Rightarrow> AnalyticsFilterDto \<Rightarrow> match_stage" where
  "property_match parseDate filters =
     (buildDateFilter parseDate filters)\<lparr> m_channel := or_null (a_channel filters),
                                          m_listingId := or_null (a_listingId filters) \<rparr>"

definition getPropertyBreakdown ::
  "(AnalyticsFilterDto \<Rightarrow> string) \<Rightarrow> (string \<Rightarrow> date) \<Rightarrow> state \<Rightarrow> AnalyticsFilterDto \<Rightarrow> date
     \<Rightarrow> error + cache_value \<times> state" where
  "getPropertyBreakdown stringify parseDate st filters now =
     (let cacheKey = ''analytics:by-property:'' @ stringify filters
      in case cache_get (cache st) cacheKey of
           Some cached \<Rightarrow> Inr (cached, st)
         | None \<Rightarrow>
             (case aggregate_properties (property_match parseDate filters) (docs (db st)) of
                Inl e \<Rightarrow> Inl e
              | Inr ps \<Rightarrow>
                  (let result = CachedProperties
                         \<lparr> properties = ps, totalProperties = length ps, generatedAt = now \<rparr>
                   in Inr (result, st\<lparr> cache := cache_set (cache st) cacheKey result 300 \<rparr>))))"


section \<open>The approve route (reviews.controller.ts)\<close>

text \<open>\<^verbatim>\<open>PATCH :id/approve\<close> calls the service's \<^verbatim>\<open>update\<close> with the approval and the
  given name or "admin".\<close>

definition approve :: "state \<Rightarrow> string \<Rightarrow> string option \<Rightarrow> date \<Rightarrow> error + Review option \<times> state" where
  "approve st ident approver now =
     update st ident
       \<lparr> u_isApprovedForPublic = Some True, u_managerNotes = None,
         u_approvedBy = Some (or_else approver ''admin'') \<rparr> now"


section \<open>Notions of the statements\<close>

text \<open>What an operation returned: whether it succeeded, whether it failed with NotFound
  or with a CastError, the review it returned, the review stored under a key
  afterwards, the count, the pagination.\<close>

definition succeeded :: "error + 'a \<Rightarrow> bool" where
  "succeeded res = (case res of Inl e \<Rightarrow> False | Inr v \<Rightarrow> True)"

definition is_not_found :: "error + 'a \<Rightarrow> bool" where
  "is_not_found res = (case res of Inl NotFoundException \<Rightarrow> True | _ \<Rightarrow> False)"

definition is_cast_error :: "error + 'a \<Rightarrow> bool" where
  "is_cast_error res = (case res of Inl CastError \<Rightarrow> True | _ \<Rightarrow> False)"

definition updated_review :: "error + Review option \<times> state \<Rightarrow> Review option" where
  "updated_review res = (case res of Inl e \<Rightarrow> None | Inr (r, st) \<Rightarrow> r)"

definition created_review :: "error + (string \<times> Review) \<times> database \<Rightarrow> Review option" where
  "created_review res = (case res of Inl e \<Rightarrow> None | Inr (kr, d) \<Rightarrow> Some (snd kr))"

definition stored_after :: "error + 'a \<times> state \<Rightarrow> string \<Rightarrow> Review option" where
  "stored_after res ident =
     (case res of
        Inl e \<Rightarrow> None
      | Inr (r, st) \<Rightarrow> (case findById (docs (db st)) ident of Inl e \<Rightarrow> None | Inr found \<Rightarrow> found))"

definition count_of :: "error + nat \<times> state \<Rightarrow> nat option" where
  "count_of res = (case res of Inl e \<Rightarrow> None | Inr (n, st) \<Rightarrow> Some n)"





text \<open>The ratings of a review's categories, and their arithmetic mean.\<close>

definition category_ratings :: "Review \<Rightarrow> number list" where
  "category_ratings r = map c_rating (reviewCategories r)"

definition category_mean :: "Review \<Rightarrow> number" where
  "category_mean r = mean (map c_rating (reviewCategories r))"

text \<open>For a bulk approval: that every id of the list is an ObjectId, the number of its
  ids whose review was not approved before it, the number of stored reviews whose key
  is among its ids, and that every stored approval time is earlier than \<open>now\<close>.\<close>

definition object_ids :: "string list \<Rightarrow> bool" where
  "object_ids ids = list_all (\<lambda>i. castObjectId i \<noteq> None) ids"

definition previously_unapproved :: "collection \<Rightarrow> string list \<Rightarrow> nat" where
  "previously_unapproved c ids = length (filter (\<lambda>(k, r). among ids k \<and> \<not> isApprovedForPublic r) c)"

definition matched_ids :: "collection \<Rightarrow> string list \<Rightarrow> nat" where
  "matched_ids c ids = length (filter (\<lambda>(k, r). among ids k) c)"

definition approved_before :: "date \<Rightarrow> collection \<Rightarrow> bool" where
  "approved_before now c \<longleftrightarrow> list_all (\<lambda>(k, r). case approvedAt r of None \<Rightarrow> True | Some t \<Rightarrow> t < now) c"

text \<open>The review that an identifier of \<^verbatim>\<open>approveReview\<close> stands for: looked up by
  Hostaway id when the identifier is a non-empty string of decimal digits, by primary
  key otherwise. The keys of a store are well formed when each is an ObjectId in lower
  case and no two are the same.\<close>

definition resolved :: "collection \<Rightarrow> string \<Rightarrow> (string \<times> Review) option" where
  "resolved c ident =
     (if ident \<noteq> [] \<and> list_all (\<lambda>ch. ch \<in> set ''0123456789'') ident
      then (case parseInt ident of None \<Rightarrow> None | Some h \<Rightarrow> findByHostawayId c h)
      else (case castObjectId ident of None \<Rightarrow> None | Some oid \<Rightarrow> lookup c oid))"

definition well_keyed :: "collection \<Rightarrow> bool" where
  "well_keyed c \<longleftrightarrow> list_all (\<lambda>k. castObjectId k = Some k) (map fst c) \<and> distinct (map fst c)"

text \<open>The mean that a property entry is derived from: the average, over the matching
  reviews of the listing, of their stored \<^verbatim>\<open>averageCategoryRating\<close>.\<close>

definition property_mean :: "match_stage \<Rightarrow> collection \<Rightarrow> string \<Rightarrow> string \<Rightarrow> number option" where
  "property_mean m c lid lname =
     avg_of (map averageCategoryRating
       (filter (\<lambda>r. (listingId r, listingName r) = (lid, lname)) (matched m c)))"

text \<open>The entries that the projections of the property, channel and overview pipelines
  give when the division succeeds, and the constant object of the overview.\<close>

definition entry_of :: "property_stats \<Rightarrow> property_entry" where
  "entry_of g =
     \<lparr> pe_listingId = ps_listingId g,
       pe_listingName = ps_listingName g,
       pe_totalReviews = ps_totalReviews g,
       pe_approvedReviews = ps_approvedReviews g,
       pe_pendingReviews = ps_pendingReviews g,
       pe_avgRating = map_option round2 (ps_avgRating g),
       pe_minRating = map_option round2 (ps_minRating g),
       pe_maxRating = map_option round2 (ps_maxRating g),
       pe_approvalRate = round2 (of_nat (ps_approvedReviews g) / of_nat (ps_totalReviews g) * 100),
       pe_latestReviewDate = ps_latestReviewDate g,
       pe_performance = performance (ps_avgRating g) \<rparr>"

definition channel_of :: "string \<times> Review list \<Rightarrow> channel_entry" where
  "channel_of kg =
     \<lparr> ce_channel = fst kg, ce_count = length (snd kg),
       ce_avgRating = map_option round2 (avg_of (map averageCategoryRating (snd kg))),
       ce_approvedCount = count_approved (snd kg),
       ce_approvalRate = round2 (of_nat (count_approved (snd kg)) / of_nat (length (snd kg)) * 100) \<rparr>"

definition overview_of :: "unit \<times> Review list \<Rightarrow> overview_stats" where
  "overview_of kg =
     \<lparr> os_totalReviews = length (snd kg),
       os_avgRating = map_option round2 (avg_of (map averageCategoryRating (snd kg))),
       os_approvedCount = count_approved (snd kg),
       os_pendingCount = count_pending (snd kg),
       os_uniquePropertiesCount = length (remdups (map listingId (snd kg))),
       os_approvalRate = round2 (of_nat (count_approved (snd kg)) / of_nat (length (snd kg)) * 100) \<rparr>"

definition overview_fallback :: overview_stats where
  "overview_fallback =
     \<lparr> os_totalReviews = 0, os_avgRating = Some 0, os_approvedCount = 0,
       os_pendingCount = 0, os_uniquePropertiesCount = 0, os_approvalRate = 0 \<rparr>"


section \<open>Example data\<close>

text \<open>Two records of the hard-coded fallback data of the channel client, and one
  without categories. A parser that maps every date string to the epoch.\<close>

definition mock_7453 :: HostawayReview where
  "mock_7453 =
     \<lparr> raw_id = 7453, raw_type = ''host-to-guest'', raw_status = ''published'',
       raw_rating = None,
       raw_publicReview = ''Shane and family are wonderful! Would definitely host again :)'',
       raw_privateReview = None,
       raw_reviewCategory =
         [\<lparr> category = ''cleanliness'', c_rating = 10 \<rparr>,
          \<lparr> category = ''communication'', c_rating = 10 \<rparr>,
          \<lparr> category = ''respect_house_rules'', c_rating = 10 \<rparr>],
       raw_submittedAt = ''2020-08-21 22:45:14'',
       raw_guestName = ''Shane Finkelstein'',
       raw_listingName = ''2B N1 A - 29 Shoreditch Heights'',
       raw_listingId = None, raw_channelId = None \<rparr>"

definition mock_7458 :: HostawayReview where
  "mock_7458 =
     \<lparr> raw_id = 7458, raw_type = ''host-to-guest'', raw_status = ''published'',
       raw_rating = None,
       raw_publicReview =
         ''Great guests! Very respectful and left the place in excellent condition. Welcome back anytime!'',
       raw_privateReview = None,
       raw_reviewCategory =
         [\<lparr> category = ''cleanliness'', c_rating = 10 \<rparr>,
          \<lparr> category = ''communication'', c_rating = 9 \<rparr>,
          \<lparr> category = ''respect_house_rules'', c_rating = 10 \<rparr>],
       raw_submittedAt = ''2024-09-18 09:30:00'',
       raw_guestName = ''Jennifer Lee'',
       raw_listingName = ''Modern Loft - Hackney'',
       raw_listingId = None, raw_channelId = None \<rparr>"

definition mock_bare :: HostawayReview where
  "mock_bare = mock_7453\<lparr> raw_id := 1, raw_reviewCategory := [] \<rparr>"

definition epoch :: "string \<Rightarrow> date" where
  "epoch s = 0"

text \<open>A store filled by one synchronisation of the two records, with an empty cache; its
  two keys, a key that no document has, and its first review.\<close>

definition empty_db :: database where
  "empty_db = \<lparr> docs = [], next_oid = 0 \<rparr>"

definition sample_db :: database where
  "sample_db = snd (bulkUpsert empty_db (normalizeReviews epoch [mock_7453, mock_7458]))"

definition sample_state :: state where
  "sample_state = \<lparr> db = sample_db, cache = (\<lambda>k. None) \<rparr>"

definition key_0 :: string where
  "key_0 = ''a00000000000000000000000''"

definition key_1 :: string where
  "key_1 = ''a00000000000000000000001''"

definition key_none :: string where
  "key_none = ''ffffffffffffffffffffffff''"

definition review_0 :: Review where
  "review_0 = inserted_from (normalizeReview epoch mock_7453)"

text \<open>Three reviews of one listing, with category ratings 8, 8, 9 twice and
  9, 9, 9, 9, 8, 9 once, normalized and synchronised into an empty store, and the
  entries that the property and channel pipelines give for them.\<close>

definition with_ratings :: "int \<Rightarrow> number list \<Rightarrow> HostawayReview" where
  "with_ratings ident ratings =
     mock_7453\<lparr> raw_id := ident,
                raw_reviewCategory := map (\<lambda>x. \<lparr> category = ''cleanliness'', c_rating = x \<rparr>) ratings \<rparr>"

definition tier_db :: database where
  "tier_db = snd (bulkUpsert empty_db (normalizeReviews epoch
     [with_ratings 1 [8, 8, 9], with_ratings 2 [8, 8, 9], with_ratings 3 [9, 9, 9, 9, 8, 9]]))"

definition match_all :: match_stage where
  "match_all = \<lparr> m_submittedAt_gte = None, m_submittedAt_lte = None, m_channel = None, m_listingId = None \<rparr>"

definition tier_entry :: property_entry where
  "tier_entry =
     \<lparr> pe_listingId = ''2b-n1-a---29-shoreditch-heights'',
       pe_listingName = ''2B N1 A - 29 Shoreditch Heights'',
       pe_totalReviews = 3, pe_approvedReviews = 0, pe_pendingReviews = 3,
       pe_avgRating = Some (17 / 2), pe_minRating = Some (833 / 100),
       pe_maxRating = Some (883 / 100), pe_approvalRate = 0,
       pe_latestReviewDate = Some 0, pe_performance = ''good'' \<rparr>"

definition tier_channel :: channel_entry where
  "tier_channel =
     \<lparr> ce_channel = ''hostaway'', ce_count = 3, ce_avgRating = Some (17 / 2),
       ce_approvedCount = 0, ce_approvalRate = 0 \<rparr>"






text \<open>Two bulk approvals on the sample store: the first of one review, the second, a
  second later, of both reviews and of a key that matches nothing.\<close>

definition approve_one :: BulkApproveDto where
  "approve_one = \<lparr> reviewIds = [key_0], b_approvedBy = None \<rparr>"

definition approve_three :: BulkApproveDto where
  "approve_three = \<lparr> reviewIds = [key_0, key_1, key_none], b_approvedBy = None \<rparr>"

definition first_approval :: "error + nat \<times> state" where
  "first_approval = bulkApprove sample_state approve_one 1000"

definition second_approval :: "error + nat \<times> state" where
  "second_approval =
     (case first_approval of
        Inl e \<Rightarrow> Inl e
      | Inr (n, st) \<Rightarrow> bulkApprove st approve_three 2000)"

definition unapproved_before_second :: "nat option" where
  "unapproved_before_second =
     (case first_approval of
        Inl e \<Rightarrow> None
      | Inr (n, st) \<Rightarrow> Some (previously_unapproved (docs (db st)) (reviewIds approve_three)))"

text \<open>Requests that approve and unapprove without naming an approver.\<close>

definition approve_only :: UpdateReviewDto where
  "approve_only = \<lparr> u_isApprovedForPublic = Some True, u_managerNotes = None, u_approvedBy = None \<rparr>"

definition unapprove_only :: UpdateReviewDto where
  "unapprove_only = \<lparr> u_isApprovedForPublic = Some False, u_managerNotes = None, u_approvedBy = None \<rparr>"

text \<open>The sample store after the three cached reads, and after one approval that follows
  them. For the trend, days of 86400000 ms, printed by their number.\<close>

definition day_string :: "date \<Rightarrow> string" where
  "day_string t = show_int (t div 86400000)"

definition days_before :: "date \<Rightarrow> int \<Rightarrow> date" where
  "days_before now days = now - days * 86400000"

definition warm_state :: state where
  "warm_state =
     snd (getReviewsTrend days_before day_string (snd (getStatistics (snd (getApprovedReviews sample_state None 10)))) 30 0)"

definition after_approval :: state where
  "after_approval =
     (case approveReview warm_state ''7453'' None 1000 of Inl e \<Rightarrow> warm_state | Inr (r, st) \<Rightarrow> st)"

text \<open>A synchronisation of one normalized review whose average the caller has set to 3,
  and the data of a review to create, with a supplied average of 1.\<close>

definition supplied :: NormalizedReview where
  "supplied = (normalizeReview epoch mock_7458)\<lparr> n_averageCategoryRating := 3 \<rparr>"

definition synced :: "error + sync_result \<times> state" where
  "synced = syncReviews \<lparr> db = empty_db, cache = (\<lambda>k. None) \<rparr> [supplied]"

definition new_review :: ReviewPatch where
  "new_review =
     empty_patch\<lparr>
       p_hostawayId := Some 9001, p_type := Some ''guest-to-host'', p_status := Some ''published'',
       p_publicReview := Some ''Good stay overall.'',
       p_reviewCategories := Some [\<lparr> category = ''cleanliness'', c_rating = 8 \<rparr>,
                                  \<lparr> category = ''communication'', c_rating = 9 \<rparr>,
                                  \<lparr> category = ''amenities'', c_rating = 7 \<rparr>],
       p_submittedAt := Some 0, p_guestName := Some ''Michael Chen'',
       p_listingId := Some ''cozy-1br'', p_listingName := Some ''Cozy 1BR Apartment - Shoreditch'',
       p_averageCategoryRating := Some (Some 1) \<rparr>"


section \<open>Properties\<close>

subsection \<open>The normalizer's average\<close>

lemma foldl_rating_sum:
  "foldl (\<lambda>acc cat. acc + c_rating cat) a cs = a + sum_list (map c_rating cs)"
  by (induction cs arbitrary: a) (auto simp: algebra_simps)

lemma two_decimals_of_int: "two_decimals (of_int n / 100)"
  by (simp add: two_decimals_def)

lemma two_decimals_neg: "two_decimals (- (of_int n / 100))"
proof -
  have "- (of_int n / 100) = (of_int (- n) / 100 :: rat)" by simp
  then show ?thesis using two_decimals_of_int [of "- n"] by simp
qed

lemma floor_half_close: "\<bar>of_int \<lfloor>y * 100 + 1 / 2\<rfloor> / 100 - y\<bar> \<le> 1 / (200 :: rat)"
proof -
  define n :: rat where "n = of_int \<lfloor>y * 100 + 1 / 2\<rfloor>"
  have a: "n \<le> y * 100 + 1 / 2" unfolding n_def by (rule of_int_floor_le)
  have b: "y * 100 + 1 / 2 < n + 1" unfolding n_def by linarith
  have "n / 100 - y \<le> 1 / 200" using a by linarith
  moreover have "- (1 / 200) \<le> n / 100 - y" using b by linarith
  ultimately have "\<bar>n / 100 - y\<bar> \<le> 1 / 200" by linarith
  then show ?thesis unfolding n_def .
qed

lemma toFixed2_rounded: "rounded_to_2 x (toFixed2 x)"
proof (cases "x < 0")
  case True
  have "\<bar>- (of_int \<lfloor>(- x) * 100 + 1 / 2\<rfloor> / 100) - x\<bar> = \<bar>of_int \<lfloor>(- x) * 100 + 1 / 2\<rfloor> / 100 - (- x)\<bar>"
    by (simp add: abs_minus_commute)
  with True floor_half_close [of "- x"] show ?thesis
    by (simp add: rounded_to_2_def toFixed2_def two_decimals_neg)
next
  case False
  with floor_half_close [of x] show ?thesis
    by (simp add: rounded_to_2_def toFixed2_def two_decimals_of_int)
qed

lemma calculateAverageRating_mean:
  "cs \<noteq> [] \<Longrightarrow> calculateAverageRating cs = toFixed2 (mean (map c_rating cs))"
  by (simp add: calculateAverageRating_def foldl_rating_sum mean_def)

text \<open>
  C4. For every raw record, the normalized review's \<^verbatim>\<open>averageCategoryRating\<close> is 0 when
  the record has no categories, and otherwise is the mean of the category ratings
  rounded to two decimal places: a multiple of 0.01 at distance at most 0.005 from
  the mean.
\<close>

theorem normalize_average_rounded:
  "(if raw_reviewCategory review = []
    then n_averageCategoryRating (normalizeReview parseDate review) = 0
    else rounded_to_2 (mean (map c_rating (raw_reviewCategory review)))
           (n_averageCategoryRating (normalizeReview parseDate review)))"
  by (simp add: normalizeReview_def Let_def calculateAverageRating_mean toFixed2_rounded)
    (simp add: calculateAverageRating_def)

lemma avg_7458: "n_averageCategoryRating (normalizeReview epoch mock_7458) = 967 / 100"
  by code_simp

theorem normalize_average_rounded_witness:
  "n_averageCategoryRating (normalizeReview epoch mock_bare) = 0 \<and>
   n_averageCategoryRating (normalizeReview epoch mock_7458) = 967 / 100 \<and>
   mean (map c_rating (raw_reviewCategory mock_7458)) = 29 / 3 \<and>
   rounded_to_2 (29 / 3) (967 / 100)"
proof -
  have m: "mean (map c_rating (raw_reviewCategory mock_7458)) = 29 / 3"
    by (simp add: mock_7458_def mean_def)
  have c: "raw_reviewCategory mock_7458 \<noteq> []" by (simp add: mock_7458_def)
  have b: "raw_reviewCategory mock_bare = []" by (simp add: mock_bare_def)
  show ?thesis
    using normalize_average_rounded [of mock_7458 epoch] normalize_average_rounded [of mock_bare epoch]
    by (simp add: m c b avg_7458)
qed

subsection \<open>Pagination\<close>










subsection \<open>Sorting and grouping\<close>

lemma set_insert_by: "set (insert_by le x xs) = insert x (set xs)"
  by (induction xs) auto

lemma set_sort_by: "set (sort_by le xs) = set xs"
  by (induction xs) (auto simp: sort_by_def set_insert_by)

lemma length_insert_by: "length (insert_by le x xs) = Suc (length xs)"
  by (induction xs) auto

lemma length_sort_by: "length (sort_by le xs) = length xs"
  by (induction xs) (auto simp: sort_by_def length_insert_by)

lemma sorted_insert_by:
  assumes tot: "\<And>a b. le a b \<or> le b a" and tr: "\<And>a b c. le a b \<Longrightarrow> le b c \<Longrightarrow> le a c"
  shows "sorted_wrt le xs \<Longrightarrow> sorted_wrt le (insert_by le x xs)"
proof (induction xs)
  case Nil
  then show ?case by simp
next
  case (Cons y ys)
  show ?case
  proof (cases "le x y")
    case True
    with Cons.prems tr show ?thesis by auto
  next
    case False
    with tot have "le y x" by blast
    with False Cons show ?thesis by (auto simp: set_insert_by)
  qed
qed

lemma sorted_sort_by:
  assumes tot: "\<And>a b. le a b \<or> le b a" and tr: "\<And>a b c. le a b \<Longrightarrow> le b c \<Longrightarrow> le a c"
  shows "sorted_wrt le (sort_by le xs)"
proof (induction xs)
  case Nil
  show ?case by (simp add: sort_by_def)
next
  case (Cons x xs)
  have "sort_by le (x # xs) = insert_by le x (sort_by le xs)" by (simp add: sort_by_def)
  with Cons sorted_insert_by [of le, OF tot tr] show ?case by simp
qed

lemma group_by_member:
  "(k, g) \<in> set (group_by key xs) \<Longrightarrow> g = filter (\<lambda>x. key x = k) xs \<and> g \<noteq> []"
  by (auto simp: group_by_def filter_empty_conv)

lemma collect_map_Inr:
  "(\<And>x. x \<in> set xs \<Longrightarrow> f x = Inr (g x)) \<Longrightarrow> collect (map f xs) = Inr (map g xs)"
  by (induction xs) auto

lemma opt_less_irrefl: "\<not> opt_less a a"
  by (cases a) auto

lemma opt_less_trans: "opt_less a b \<Longrightarrow> opt_less b c \<Longrightarrow> opt_less a c"
  by (cases a; cases b; cases c) auto

lemma opt_less_total: "opt_less a b \<or> a = b \<or> opt_less b a"
  by (cases a; cases b) auto

lemma property_order_total: "property_order a b \<or> property_order b a"
  using opt_less_total [of "pe_avgRating a" "pe_avgRating b"]
  by (auto simp: property_order_def)

lemma property_order_trans:
  "property_order a b \<Longrightarrow> property_order b c \<Longrightarrow> property_order a c"
  unfolding property_order_def
  using opt_less_trans [of "pe_avgRating c" "pe_avgRating b" "pe_avgRating a"]
  by auto

subsection \<open>Property breakdown\<close>

lemma project_property_Inr:
  "ps_totalReviews g \<noteq> 0 \<Longrightarrow> project_property g = Inr (entry_of g)"
  by (simp add: project_property_def mongo_divide_def entry_of_def)

lemma group_properties_member:
  assumes "g \<in> set (group_properties rs)"
  shows "ps_totalReviews g \<noteq> 0 \<and>
         ps_avgRating g = avg_of (map averageCategoryRating
            (filter (\<lambda>r. (listingId r, listingName r) = (ps_listingId g, ps_listingName g)) rs))"
proof -
  from assms obtain k grp where kg: "(k, grp) \<in> set (group_by (\<lambda>r. (listingId r, listingName r)) rs)"
    and g: "g = \<lparr> ps_listingId = fst k, ps_listingName = snd k,
                     ps_totalReviews = length grp,
                     ps_approvedReviews = count_approved grp,
                     ps_pendingReviews = count_pending grp,
                     ps_avgRating = avg_of (map averageCategoryRating grp),
                     ps_minRating = min_of (present (map averageCategoryRating grp)),
                     ps_maxRating = max_of (present (map averageCategoryRating grp)),
                     ps_latestReviewDate = max_of (map submittedAt grp) \<rparr>"
    by (auto simp: group_properties_def)
  from group_by_member [OF kg] have "grp = filter (\<lambda>r. (listingId r, listingName r) = k) rs" and "grp \<noteq> []"
    by auto
  with g show ?thesis by simp
qed

lemma aggregate_properties_eq:
  "aggregate_properties m c = Inr (sort_by property_order (map entry_of (group_properties (matched m c))))"
proof -
  have "collect (map project_property (group_properties (matched m c)))
        = Inr (map entry_of (group_properties (matched m c)))"
    by (rule collect_map_Inr) (simp add: project_property_Inr group_properties_member)
  then show ?thesis by (simp add: aggregate_properties_def)
qed

lemma performance_cases:
  "(performance mu = ''excellent'' \<longleftrightarrow> gte mu (17 / 2)) \<and>
   (performance mu = ''good'' \<longleftrightarrow> gte mu 7 \<and> \<not> gte mu (17 / 2)) \<and>
   (performance mu = ''fair'' \<longleftrightarrow> gte mu 5 \<and> \<not> gte mu 7) \<and>
   (performance mu = ''needs_improvement'' \<longleftrightarrow> \<not> gte mu 5)"
  by (cases mu) (auto simp: performance_def gte_def)

text \<open>
  C8 (as amended). Every entry of the property breakdown reports the mean of its
  listing's matching reviews rounded to two decimal places, and its tier is decided by
  that mean before rounding: "excellent" exactly when the mean is at least 8.5, "good"
  exactly when it is at least 7 and below 8.5, "fair" exactly when it is at least 5 and
  below 7, "needs_improvement" otherwise (also when no review of the listing has an
  average). The list is in descending order of the reported average, entries with equal
  averages in descending order of their number of reviews.
\<close>

theorem property_tiers_and_order:
  assumes "aggregate_properties m c = Inr es"
  shows "sorted_wrt property_order es \<and>
         (\<forall>e \<in> set es.
            pe_avgRating e = map_option round2 (property_mean m c (pe_listingId e) (pe_listingName e)) \<and>
            (pe_performance e = ''excellent'' \<longleftrightarrow>
               gte (property_mean m c (pe_listingId e) (pe_listingName e)) (17 / 2)) \<and>
            (pe_performance e = ''good'' \<longleftrightarrow>
               gte (property_mean m c (pe_listingId e) (pe_listingName e)) 7 \<and>
               \<not> gte (property_mean m c (pe_listingId e) (pe_listingName e)) (17 / 2)) \<and>
            (pe_performance e = ''fair'' \<longleftrightarrow>
               gte (property_mean m c (pe_listingId e) (pe_listingName e)) 5 \<and>
               \<not> gte (property_mean m c (pe_listingId e) (pe_listingName e)) 7) \<and>
            (pe_performance e = ''needs_improvement'' \<longleftrightarrow>
               \<not> gte (property_mean m c (pe_listingId e) (pe_listingName e)) 5))"
proof -
  from assms have es: "es = sort_by property_order (map entry_of (group_properties (matched m c)))"
    by (simp add: aggregate_properties_eq)
  have sorted: "sorted_wrt property_order es"
    unfolding es by (rule sorted_sort_by [OF property_order_total property_order_trans])
  have each: "pe_avgRating e = map_option round2 (property_mean m c (pe_listingId e) (pe_listingName e)) \<and>
      pe_performance e = performance (property_mean m c (pe_listingId e) (pe_listingName e))"
    if "e \<in> set es" for e
  proof -
    from that obtain g where g: "g \<in> set (group_properties (matched m c))" and e: "e = entry_of g"
      by (auto simp: es set_sort_by)
    from group_properties_member [OF g] show ?thesis
      by (simp add: e entry_of_def property_mean_def)
  qed
  show ?thesis using sorted each performance_cases by simp
qed

lemma tier_mean:
  "property_mean match_all (docs tier_db) (pe_listingId tier_entry) (pe_listingName tier_entry)
     = Some (2549 / 300)"
  by code_simp

lemma tier_run: "aggregate_properties match_all (docs tier_db) = Inr [tier_entry]"
  by code_simp

theorem property_tiers_and_order_witness:
  "aggregate_properties match_all (docs tier_db) = Inr [tier_entry] \<and>
   property_mean match_all (docs tier_db) (pe_listingId tier_entry) (pe_listingName tier_entry)
     = Some (2549 / 300) \<and>
   pe_avgRating tier_entry = map_option round2 (Some (2549 / 300)) \<and>
   (pe_performance tier_entry = ''good'' \<longleftrightarrow>
      gte (Some (2549 / 300)) 7 \<and> \<not> gte (Some (2549 / 300)) (17 / 2))"
  using property_tiers_and_order [OF tier_run] by (simp add: tier_mean tier_run)

text \<open>
  The claim as stated reads the tier off the reported average. The three reviews have
  the averages 8.33, 8.33 and 8.83; their mean 8.4967 is reported as 8.5, and the tier
  is "good".
\<close>

theorem tier_of_reported_average_counterexample:
  "aggregate_properties match_all (docs tier_db) = Inr [tier_entry] \<and>
   gte (pe_avgRating tier_entry) (17 / 2) \<and> pe_performance tier_entry = ''good''"
  by code_simp

subsection \<open>Divisors of the approval rates\<close>

lemma project_channel_Inr: "snd kg \<noteq> [] \<Longrightarrow> project_channel kg = Inr (channel_of kg)"
  by (simp add: project_channel_def mongo_divide_def channel_of_def Let_def)

lemma project_overview_Inr: "snd kg \<noteq> [] \<Longrightarrow> project_overview kg = Inr (overview_of kg)"
  by (simp add: project_overview_def mongo_divide_def overview_of_def Let_def)

lemma group_by_snd_nonempty: "kg \<in> set (group_by key xs) \<Longrightarrow> snd kg \<noteq> []"
  by (cases kg) (auto dest: group_by_member)

lemma channel_breakdown_eq:
  "getChannelBreakdown m c =
     Inr (sort_by (\<lambda>a b. ce_count b \<le> ce_count a) (map channel_of (group_by channel (matched m c))))"
proof -
  have "collect (map project_channel (group_by channel (matched m c)))
        = Inr (map channel_of (group_by channel (matched m c)))"
    by (rule collect_map_Inr) (simp add: project_channel_Inr group_by_snd_nonempty)
  then show ?thesis by (simp add: getChannelBreakdown_def)
qed

lemma remdups_const: "xs \<noteq> [] \<Longrightarrow> remdups (map (\<lambda>r. k) xs) = [k]"
proof (induction xs)
  case Nil
  then show ?case by simp
next
  case (Cons a xs)
  show ?case
  proof (cases "xs = []")
    case True
    then show ?thesis by simp
  next
    case False
    then have "k \<in> set (map (\<lambda>r. k) xs)" by (cases xs) simp_all
    with Cons.IH [OF False] show ?thesis by simp
  qed
qed

lemma group_by_unit: "group_by (\<lambda>r. ()) xs = (if xs = [] then [] else [((), xs)])"
proof (cases "xs = []")
  case True
  then show ?thesis by (simp add: group_by_def)
next
  case False
  have "filter (\<lambda>x. () = ()) xs = xs" by simp
  with False remdups_const [OF False, of "()"] show ?thesis
    by (simp add: group_by_def)
qed

lemma overview_eq:
  "getOverviewStats m c =
     Inr (if matched m c = [] then overview_fallback else overview_of ((), matched m c))"
  by (simp add: getOverviewStats_def group_by_unit project_overview_Inr overview_fallback_def)

lemma byProperty_eq:
  "s_byProperty (repo_getStatistics c) =
     take 10 (sort_by (\<lambda>a b. pg_count b \<le> pg_count a)
               (map (\<lambda>(k, g). \<lparr> pg_listingId = fst k, pg_listingName = snd k,
                                 pg_count = length g,
                                 pg_avgRating = avg_of (map averageCategoryRating g),
                                 pg_approvedCount = count_approved g \<rparr>)
                  (group_by (\<lambda>r. (listingId r, listingName r)) (map snd c))))"
  by (simp add: repo_getStatistics_def Let_def)

lemma byProperty_counts:
  assumes "item \<in> set (s_byProperty (repo_getStatistics c))"
  shows "1 \<le> pg_count item"
proof -
  from assms have "item \<in> set (map (\<lambda>(k, g). \<lparr> pg_listingId = fst k, pg_listingName = snd k,
                                 pg_count = length g,
                                 pg_avgRating = avg_of (map averageCategoryRating g),
                                 pg_approvedCount = count_approved g \<rparr>)
                  (group_by (\<lambda>r. (listingId r, listingName r)) (map snd c)))"
    unfolding byProperty_eq by (auto dest!: in_set_takeD simp: set_sort_by)
  then obtain k g where kg: "(k, g) \<in> set (group_by (\<lambda>r. (listingId r, listingName r)) (map snd c))"
    and "pg_count item = length g"
    by auto
  moreover from group_by_member [OF kg] have "g \<noteq> []" by blast
  ultimately show ?thesis by (cases g) simp_all
qed

lemma top_properties_counts:
  assumes "p \<in> set (st_topProperties (transform_statistics (repo_getStatistics c)))"
  shows "1 \<le> tp_reviewCount p"
proof -
  from assms obtain item where item: "item \<in> set (s_byProperty (repo_getStatistics c))"
    and p: "tp_reviewCount p = pg_count item"
    by (auto simp: transform_statistics_def)
  with byProperty_counts [OF item] show ?thesis by simp
qed

text \<open>
  C10. No aggregate that reports an approval rate divides by zero. The channel
  breakdown and the property breakdown return their entries (the store's division
  never fails), and every entry counts at least one review; the overview returns the
  constant fallback object when no document matches and otherwise reports the number
  of matching documents, which is at least 1; every entry of the statistics' top
  properties, whose rate the service computes by dividing by its review count, counts
  at least one review.
\<close>

theorem approval_rate_divisor_positive:
  "(\<exists>es. getChannelBreakdown m c = Inr es \<and> (\<forall>e \<in> set es. 1 \<le> ce_count e)) \<and>
   (\<exists>es. aggregate_properties m c = Inr es \<and> (\<forall>e \<in> set es. 1 \<le> pe_totalReviews e)) \<and>
   (\<exists>ov. getOverviewStats m c = Inr ov \<and>
      (if matched m c = [] then ov = overview_fallback
       else os_totalReviews ov = length (matched m c) \<and> 1 \<le> os_totalReviews ov)) \<and>
   (\<forall>p \<in> set (st_topProperties (transform_statistics (repo_getStatistics c))). 1 \<le> tp_reviewCount p)"
proof -
  have ch: "1 \<le> ce_count e"
    if "e \<in> set (sort_by (\<lambda>a b. ce_count b \<le> ce_count a) (map channel_of (group_by channel (matched m c))))" for e
  proof -
    from that obtain kg where kg: "kg \<in> set (group_by channel (matched m c))" and "e = channel_of kg"
      by (auto simp: set_sort_by)
    with group_by_snd_nonempty [OF kg] show ?thesis
      by (cases "snd kg") (auto simp: channel_of_def)
  qed
  have pr: "1 \<le> pe_totalReviews e"
    if "e \<in> set (sort_by property_order (map entry_of (group_properties (matched m c))))" for e
  proof -
    from that obtain g where g: "g \<in> set (group_properties (matched m c))" and "e = entry_of g"
      by (auto simp: set_sort_by)
    with group_properties_member [OF g] show ?thesis
      by (simp add: entry_of_def)
  qed
  have ov: "os_totalReviews (overview_of ((), matched m c)) = length (matched m c)"
    by (simp add: overview_of_def)
  have pos: "matched m c \<noteq> [] \<Longrightarrow> Suc 0 \<le> length (matched m c)"
    by (cases "matched m c") auto
  have tp: "\<forall>p \<in> set (st_topProperties (transform_statistics (repo_getStatistics c))). 1 \<le> tp_reviewCount p"
    using top_properties_counts by blast
  have c1: "\<exists>es. getChannelBreakdown m c = Inr es \<and> (\<forall>e \<in> set es. 1 \<le> ce_count e)"
    using ch by (simp add: channel_breakdown_eq)
  have c2: "\<exists>es. aggregate_properties m c = Inr es \<and> (\<forall>e \<in> set es. 1 \<le> pe_totalReviews e)"
    using pr by (simp add: aggregate_properties_eq)
  have c3: "\<exists>ov. getOverviewStats m c = Inr ov \<and>
      (if matched m c = [] then ov = overview_fallback
       else os_totalReviews ov = length (matched m c) \<and> 1 \<le> os_totalReviews ov)"
    using pos by (simp add: overview_eq ov)
  from c1 c2 c3 tp show ?thesis by blast
qed

lemma tier_channels: "getChannelBreakdown match_all (docs tier_db) = Inr [tier_channel]"
  by code_simp

lemma tier_total: "length (matched match_all (docs tier_db)) = 3"
  by code_simp

lemma empty_matched: "matched match_all (docs empty_db) = []"
  by code_simp

theorem approval_rate_divisor_positive_witness:
  "getChannelBreakdown match_all (docs tier_db) = Inr [tier_channel] \<and>
   1 \<le> ce_count tier_channel \<and>
   aggregate_properties match_all (docs tier_db) = Inr [tier_entry] \<and>
   1 \<le> pe_totalReviews tier_entry \<and>
   map_sum id os_totalReviews (getOverviewStats match_all (docs tier_db)) = Inr 3 \<and>
   getOverviewStats match_all (docs empty_db) = Inr overview_fallback"
proof -
  note full = approval_rate_divisor_positive [of match_all "docs tier_db"]
  note none = approval_rate_divisor_positive [of match_all "docs empty_db"]
  from full have "1 \<le> ce_count tier_channel" by (simp add: tier_channels)
  moreover from full have "1 \<le> pe_totalReviews tier_entry" by (simp add: tier_run)
  moreover have ne: "matched match_all (docs tier_db) \<noteq> []"
    using tier_total by auto
  from full ne have "map_sum id os_totalReviews (getOverviewStats match_all (docs tier_db)) = Inr 3"
    by (auto simp: tier_total)
  moreover from none have "getOverviewStats match_all (docs empty_db) = Inr overview_fallback"
    by (auto simp: empty_matched)
  ultimately show ?thesis by (simp add: tier_channels tier_run)
qed

subsection \<open>Bulk approval\<close>

lemma approve_changes:
  "approvedAt r \<noteq> Some now \<Longrightarrow> approve_fields who now r \<noteq> r"
proof
  assume a: "approvedAt r \<noteq> Some now" and e: "approve_fields who now r = r"
  from e have "approvedAt (approve_fields who now r) = approvedAt r" by simp
  with a show False by (simp add: approve_fields_def)
qed

lemma bulk_returns:
  "object_ids ids \<Longrightarrow> \<exists>n c'. repo_bulkApprove c ids who now = Inr (n, c')"
  by (simp add: repo_bulkApprove_def object_ids_def)

lemma bulk_count_all:
  assumes "approved_before now c" and "repo_bulkApprove c ids who now = Inr (n, c')"
  shows "n = matched_ids c ids"
proof -
  have "\<And>k r. (k, r) \<in> set c \<Longrightarrow> approve_fields who now r \<noteq> r"
  proof -
    fix k r assume "(k, r) \<in> set c"
    with assms(1) have "case approvedAt r of None \<Rightarrow> True | Some t \<Rightarrow> t < now"
      by (auto simp: approved_before_def list_all_iff)
    then have "approvedAt r \<noteq> Some now" by (cases "approvedAt r") auto
    then show "approve_fields who now r \<noteq> r" by (rule approve_changes)
  qed
  then have "filter (\<lambda>(k, r). among ids k \<and> approve_fields who now r \<noteq> r) c
             = filter (\<lambda>(k, r). among ids k) c"
    by (intro filter_cong) auto
  with assms(2) show ?thesis
    by (auto simp: repo_bulkApprove_def matched_ids_def split: if_splits)
qed

lemma bulk_keeps_keys:
  assumes "repo_bulkApprove c ids who now = Inr (n, c')"
  shows "matched_ids c' ids' = matched_ids c ids'"
proof -
  have "filter (\<lambda>(k, r). among ids' k) (map (\<lambda>(k, r). if among ids k then (k, approve_fields who now r) else (k, r)) c)
        = map (\<lambda>(k, r). if among ids k then (k, approve_fields who now r) else (k, r)) (filter (\<lambda>(k, r). among ids' k) c)"
    by (induction c) (auto split: if_splits)
  with assms show ?thesis
    by (auto simp: repo_bulkApprove_def matched_ids_def split: if_splits)
qed

lemma approved_before_map:
  assumes "approved_before now2 c" and "now1 < now2"
  shows "approved_before now2 (map (\<lambda>(k, r). if among ids k then (k, approve_fields who now1 r) else (k, r)) c)"
  using assms by (induction c) (auto simp: approved_before_def approve_fields_def split: option.splits if_splits)

lemma bulk_approved_before:
  assumes "approved_before now2 c" and "now1 < now2"
    and "repo_bulkApprove c ids who now1 = Inr (n, c')"
  shows "approved_before now2 c'"
proof -
  from assms(3) have "c' = map (\<lambda>(k, r). if among ids k then (k, approve_fields who now1 r) else (k, r)) c"
    by (auto simp: repo_bulkApprove_def split: if_splits)
  then show ?thesis using approved_before_map [OF assms(1) assms(2)] by simp
qed

lemma bulkApprove_returns:
  assumes "reviewIds d \<noteq> []" and "object_ids (reviewIds d)"
  shows "\<exists>n c'. repo_bulkApprove (docs (db st)) (reviewIds d) (set_field (b_approvedBy d) ''admin'') now = Inr (n, c') \<and>
           bulkApprove st d now = Inr (n, invalidated (st\<lparr> db := (db st)\<lparr> docs := c' \<rparr> \<rparr>))"
proof -
  obtain n c' where
    "repo_bulkApprove (docs (db st)) (reviewIds d) (set_field (b_approvedBy d) ''admin'') now = Inr (n, c')"
    using bulk_returns [OF assms(2)] by blast
  then show ?thesis using assms(1) by (simp add: bulkApprove_def Let_def)
qed

lemma bulkApprove_malformed:
  assumes "reviewIds d \<noteq> []" and "\<not> object_ids (reviewIds d)"
  shows "bulkApprove st d now = Inl CastError"
  using assms by (simp add: bulkApprove_def Let_def repo_bulkApprove_def object_ids_def)

text \<open>
  C2 (as amended). Two successive bulk approvals, each with a non-empty list of ids
  that are all ObjectIds, the second later than the first and than every approval
  time in the store: neither fails, and the count returned by the second is the number
  of stored reviews whose key is in its id list. Reviews approved by the first call
  are counted again (the second write changes their approval time), and ids that
  match no review add nothing.
\<close>

theorem bulk_approve_counts_matches:
  assumes "reviewIds d1 \<noteq> []" and "reviewIds d2 \<noteq> []"
    and "object_ids (reviewIds d1)" and "object_ids (reviewIds d2)"
    and "now1 < now2"
    and "approved_before now2 (docs (db st))"
  shows "\<exists>n1 st1 n2 st2.
           bulkApprove st d1 now1 = Inr (n1, st1) \<and>
           bulkApprove st1 d2 now2 = Inr (n2, st2) \<and>
           n2 = matched_ids (docs (db st)) (reviewIds d2)"
proof -
  obtain n1 c1 where
    w1: "repo_bulkApprove (docs (db st)) (reviewIds d1) (set_field (b_approvedBy d1) ''admin'') now1 = Inr (n1, c1)"
    and r1: "bulkApprove st d1 now1 = Inr (n1, invalidated (st\<lparr> db := (db st)\<lparr> docs := c1 \<rparr> \<rparr>))"
    using bulkApprove_returns [OF assms(1) assms(3)] by blast
  define st1 where "st1 = invalidated (st\<lparr> db := (db st)\<lparr> docs := c1 \<rparr> \<rparr>)"
  have docs1: "docs (db st1) = c1" by (simp add: st1_def invalidated_def)
  obtain n2 c2 where
    w2: "repo_bulkApprove (docs (db st1)) (reviewIds d2) (set_field (b_approvedBy d2) ''admin'') now2 = Inr (n2, c2)"
    and r2: "bulkApprove st1 d2 now2 = Inr (n2, invalidated (st1\<lparr> db := (db st1)\<lparr> docs := c2 \<rparr> \<rparr>))"
    using bulkApprove_returns [OF assms(2) assms(4)] by blast
  have "approved_before now2 c1"
    by (rule bulk_approved_before [OF assms(6) assms(5) w1])
  then have "n2 = matched_ids c1 (reviewIds d2)"
    using w2 unfolding docs1 by (rule bulk_count_all)
  then have "n2 = matched_ids (docs (db st)) (reviewIds d2)"
    by (simp add: bulk_keeps_keys [OF w1])
  with r1 r2 show ?thesis unfolding st1_def by blast
qed

lemma sample_before: "approved_before 2000 (docs (db sample_state))"
  by code_simp

lemma sample_matched: "matched_ids (docs (db sample_state)) (reviewIds approve_three) = 2"
  by code_simp

theorem bulk_approve_counts_matches_witness:
  "reviewIds approve_one \<noteq> [] \<and> reviewIds approve_three \<noteq> [] \<and>
   object_ids (reviewIds approve_one) \<and> object_ids (reviewIds approve_three) \<and>
   (1000::int) < 2000 \<and>
   approved_before 2000 (docs (db sample_state)) \<and>
   count_of second_approval = Some (matched_ids (docs (db sample_state)) (reviewIds approve_three)) \<and>
   matched_ids (docs (db sample_state)) (reviewIds approve_three) = 2"
proof -
  have h1: "reviewIds approve_one \<noteq> []" by (simp add: approve_one_def)
  have h2: "reviewIds approve_three \<noteq> []" by (simp add: approve_three_def)
  have h3: "object_ids (reviewIds approve_one)" by code_simp
  have h4: "object_ids (reviewIds approve_three)" by code_simp
  have h5: "(1000::int) < 2000" by simp
  from bulk_approve_counts_matches [OF h1 h2 h3 h4 h5 sample_before]
  have "count_of second_approval = Some (matched_ids (docs (db sample_state)) (reviewIds approve_three))"
    by (auto simp: count_of_def second_approval_def first_approval_def)
  with h1 h2 h3 h4 sample_before sample_matched show ?thesis by simp
qed

text \<open>
  The claim as stated: the second count is the number of its ids that were not approved
  before. On the sample store the first call approves one review; the ids of the
  second call are all ObjectIds, one of them was not approved before, and the second
  call returns 2.
\<close>

theorem bulk_approve_recounts_counterexample:
  "object_ids (reviewIds approve_one) \<and> object_ids (reviewIds approve_three) \<and>
   count_of first_approval = Some 1 \<and> unapproved_before_second = Some 1 \<and>
   count_of second_approval = Some 2"
  by code_simp


subsection \<open>Approval\<close>

lemma find_update_first:
  "find (\<lambda>(k, r). P k) (update_first (\<lambda>(k, r). P k) f c)
     = map_option (\<lambda>(k, r). (k, f r)) (find (\<lambda>(k, r). P k) c)"
  by (induction c) (auto split: prod.splits)

lemma find_update_other:
  "(\<And>k. P k \<Longrightarrow> \<not> Q k) \<Longrightarrow>
   find (\<lambda>(k, r). Q k) (update_first (\<lambda>(k, r). P k) f c) = find (\<lambda>(k, r). Q k) c"
  by (induction c) (auto split: prod.splits)

lemma lookup_update_first:
  "lookup (update_first (\<lambda>(k, r). toLowerCase k = oid) f c) oid
     = map_option (\<lambda>(k, r). (k, f r)) (lookup c oid)"
  unfolding lookup_def by (rule find_update_first [of "\<lambda>k. toLowerCase k = oid"])

lemma lookup_update_other:
  "oid' \<noteq> oid \<Longrightarrow> lookup (update_first (\<lambda>(k, r). toLowerCase k = oid) f c) oid' = lookup c oid'"
  unfolding lookup_def
  by (rule find_update_other [of "\<lambda>k. toLowerCase k = oid" "\<lambda>k. toLowerCase k = oid'"]) simp

lemma castObjectId_Some: "castObjectId s = Some oid \<Longrightarrow> oid = toLowerCase s"
  by (simp add: castObjectId_def split: if_splits)

lemma findById_found:
  "findById c ident = Inr (Some r) \<Longrightarrow> \<exists>oid k. castObjectId ident = Some oid \<and> lookup c oid = Some (k, r)"
  by (auto simp: findById_def split: option.splits)

lemma repo_update_found:
  "castObjectId ident = Some oid \<Longrightarrow> lookup c oid = Some (k, r) \<Longrightarrow>
   repo_update c ident p
     = Inr (Some (apply_patch p r), update_first (\<lambda>(k, r). toLowerCase k = oid) (apply_patch p) c)"
  by (simp add: repo_update_def)

lemma apply_approve_data:
  "apply_patch (approve_data approver now) r = approve_fields (or_else approver ''admin'') now r"
  by (simp add: apply_patch_def approve_data_def approve_fields_def empty_patch_def set_field_def)

lemma is_digit_iff: "is_digit ch \<longleftrightarrow> ch \<in> set ''0123456789''"
proof
  assume "is_digit ch"
  then have "48 \<le> code ch \<and> code ch \<le> 57" by (simp add: is_digit_def)
  then have "code ch \<in> {48, 49, 50, 51, 52, 53, 54, 55, 56, 57}"
    by simp arith
  then have "code ch \<in> code ` set ''0123456789''"
    by (simp add: code_def)
  then show "ch \<in> set ''0123456789''"
    unfolding code_def by (simp only: inj_image_mem_iff [OF inj_of_char])
next
  assume "ch \<in> set ''0123456789''"
  then show "is_digit ch" by (auto simp: is_digit_def code_def)
qed

lemma parseInt_rounds:
  "parseInt ''7458'' = Some 7458 \<and>
   parseInt ''9007199254740993'' = Some 9007199254740992 \<and>
   parseInt ''9007199254740995'' = Some 9007199254740996"
  by code_simp

lemma isNumeric_iff:
  "isNumeric ident \<longleftrightarrow> ident \<noteq> [] \<and> list_all (\<lambda>ch. ch \<in> set ''0123456789'') ident"
  by (simp add: isNumeric_def is_digit_iff [abs_def])

lemma resolved_alt:
  "resolved c ident =
     (if isNumeric ident
      then (case parseInt ident of None \<Rightarrow> None | Some h \<Rightarrow> findByHostawayId c h)
      else (case castObjectId ident of None \<Rightarrow> None | Some oid \<Rightarrow> lookup c oid))"
  by (simp only: resolved_def isNumeric_iff)

lemma resolve_resolved:
  "isNumeric ident \<or> castObjectId ident \<noteq> None \<Longrightarrow>
   resolve c ident = (case resolved c ident of None \<Rightarrow> Inl NotFoundException | Some kr \<Rightarrow> Inr kr)"
  by (auto simp: resolve_def resolved_alt split: option.splits)

lemma resolve_malformed:
  "\<not> isNumeric ident \<Longrightarrow> castObjectId ident = None \<Longrightarrow> resolve c ident = Inl CastError"
  by (simp add: resolve_def)

lemma approve_malformed:
  "\<not> isNumeric ident \<Longrightarrow> castObjectId ident = None \<Longrightarrow>
   approveReview st ident approver now = Inl CastError"
  by (simp add: approveReview_def resolve_malformed)

lemma resolved_member:
  assumes "resolved c ident = Some (k, r)"
  shows "(k, r) \<in> set c"
proof -
  from assms obtain P where "find P c = Some (k, r)"
    by (auto simp: resolved_def findByHostawayId_def lookup_def split: if_splits option.splits)
  then show ?thesis by (auto simp: find_Some_iff in_set_conv_nth)
qed

lemma well_keyed_Cons: "well_keyed (d # c) \<Longrightarrow> well_keyed c"
  by (simp add: well_keyed_def)

lemma well_keyed_lower:
  assumes "well_keyed c" and "(k, r) \<in> set c"
  shows "castObjectId k = Some k" and "toLowerCase k = k"
proof -
  from assms show c: "castObjectId k = Some k"
    by (force simp: well_keyed_def list_all_iff)
  from castObjectId_Some [OF c] show "toLowerCase k = k" by simp
qed

lemma lookup_member:
  "well_keyed c \<Longrightarrow> (k, r) \<in> set c \<Longrightarrow> lookup c k = Some (k, r)"
proof (induction c)
  case Nil
  then show ?case by simp
next
  case (Cons d c)
  obtain k0 r0 where d: "d = (k0, r0)" by (cases d)
  have k0: "toLowerCase k0 = k0"
    using well_keyed_lower(2) [OF Cons.prems(1), of k0 r0] by (simp add: d)
  show ?case
  proof (cases "k0 = k")
    case True
    with Cons.prems have "(k, r) = (k0, r0)"
      by (auto simp: well_keyed_def d rev_image_eqI)
    then show ?thesis by (simp add: lookup_def d k0)
  next
    case False
    with Cons.prems have "(k, r) \<in> set c" by (simp add: d)
    with Cons.IH [OF well_keyed_Cons [OF Cons.prems(1)]] have "lookup c k = Some (k, r)" by simp
    with False show ?thesis by (simp add: lookup_def d k0)
  qed
qed

text \<open>
  For an identifier that is a string of digits or an ObjectId, in a store with well
  formed keys: \<^verbatim>\<open>approveReview\<close> looks the identifier up by Hostaway id when it is a
  non-empty string of decimal digits and by primary key otherwise. When no review
  matches it fails with NotFound. When a review matches, that review is returned and
  stored with \<^verbatim>\<open>isApprovedForPublic\<close> set, \<^verbatim>\<open>approvedBy\<close> the given name or "admin", and
  \<^verbatim>\<open>approvedAt\<close> the current time, and no other review changes.
\<close>

lemma approve_resolution_well_formed:
  assumes "well_keyed (docs (db st))" and "isNumeric ident \<or> castObjectId ident \<noteq> None"
  shows "(resolved (docs (db st)) ident = None \<longrightarrow> is_not_found (approveReview st ident approver now)) \<and>
         (\<forall>k r. resolved (docs (db st)) ident = Some (k, r) \<longrightarrow>
            updated_review (approveReview st ident approver now)
              = Some (approve_fields (or_else approver ''admin'') now r) \<and>
            stored_after (approveReview st ident approver now) k
              = Some (approve_fields (or_else approver ''admin'') now r) \<and>
            (\<forall>k' r'. (k', r') \<in> set (docs (db st)) \<and> k' \<noteq> k \<longrightarrow>
               stored_after (approveReview st ident approver now) k' = Some r'))"
proof (intro conjI allI impI)
  assume "resolved (docs (db st)) ident = None"
  then show "is_not_found (approveReview st ident approver now)"
    by (simp add: approveReview_def resolve_resolved [OF assms(2)] is_not_found_def)
next
  fix k r assume res: "resolved (docs (db st)) ident = Some (k, r)"
  have mem: "(k, r) \<in> set (docs (db st))" by (rule resolved_member [OF res])
  note key = well_keyed_lower [OF assms(1) mem]
  have f: "lookup (docs (db st)) k = Some (k, r)" by (rule lookup_member [OF assms(1) mem])
  have run: "approveReview st ident approver now =
      Inr (Some (approve_fields (or_else approver ''admin'') now r),
           invalidated (st\<lparr> db := (db st)\<lparr> docs :=
             update_first (\<lambda>(k', r'). toLowerCase k' = k)
               (approve_fields (or_else approver ''admin'') now) (docs (db st)) \<rparr> \<rparr>))"
    by (simp add: approveReview_def resolve_resolved [OF assms(2)] res
          repo_update_found [OF key(1) f] apply_approve_data apply_approve_data [abs_def])
  show "updated_review (approveReview st ident approver now)
          = Some (approve_fields (or_else approver ''admin'') now r)"
    by (simp add: run updated_review_def)
  show "stored_after (approveReview st ident approver now) k
          = Some (approve_fields (or_else approver ''admin'') now r)"
    by (simp add: run stored_after_def invalidated_def findById_def key(1) lookup_update_first f)
  fix k' r' assume other: "(k', r') \<in> set (docs (db st)) \<and> k' \<noteq> k"
  then have mem': "(k', r') \<in> set (docs (db st))" and ne: "k' \<noteq> k" by simp_all
  note key' = well_keyed_lower [OF assms(1) mem']
  have f': "lookup (docs (db st)) k' = Some (k', r')" by (rule lookup_member [OF assms(1) mem'])
  show "stored_after (approveReview st ident approver now) k' = Some r'"
    by (simp add: run stored_after_def invalidated_def findById_def key'(1)
          lookup_update_other [OF ne] f')
qed

lemma sample_well_keyed: "well_keyed (docs (db sample_state))"
  by code_simp

lemma approve_by_hostaway_id:
  "map_option fst (resolved (docs (db sample_state)) ''7458'') = Some key_1 \<and>
   map_option approvedBy (stored_after (approveReview sample_state ''7458'' None 1000) key_1)
     = Some (Some ''admin'') \<and>
   map_option approvedAt (stored_after (approveReview sample_state ''7458'' None 1000) key_1)
     = Some (Some 1000) \<and>
   map_option approvedAt (stored_after (approveReview sample_state ''7458'' None 1000) key_0)
     = Some None \<and>
   resolved (docs (db sample_state)) ''9999'' = None \<and>
   is_not_found (approveReview sample_state ''9999'' None 1000) \<and>
   resolved (docs (db sample_state)) key_none = None \<and>
   is_not_found (approveReview sample_state key_none None 1000)"
  by code_simp

text \<open>
  C7. The claim has \<^verbatim>\<open>approveReview\<close> fail with NotFound whenever no review matches the
  identifier. The identifier \<^verbatim>\<open>abc\<close> is not a string of digits, so it is looked up by
  primary key; no review matches it; and the call fails with the store's CastError, not
  with NotFound.
\<close>

theorem approve_unmatched_identifier_cast_error:
  "\<not> isNumeric ''abc'' \<and>
   resolved (docs (db sample_state)) ''abc'' = None \<and>
   is_cast_error (approveReview sample_state ''abc'' None 1000) \<and>
   \<not> is_not_found (approveReview sample_state ''abc'' None 1000)"
  by code_simp

lemma resolve_member:
  assumes "resolve c i = Inr (k, r)"
  shows "(k, r) \<in> set c"
proof -
  from assms obtain P where "find P c = Some (k, r)"
    by (auto simp: resolve_def findByHostawayId_def lookup_def split: if_splits option.splits)
  then show ?thesis by (auto simp: find_Some_iff in_set_conv_nth)
qed

lemma lookup_some_member:
  "(k, r) \<in> set c \<Longrightarrow> \<exists>k' r'. lookup c (toLowerCase k) = Some (k', r')"
  by (induction c) (auto simp: lookup_def)

lemma approveReview_result:
  assumes "approveReview st i approver now = Inr (res, st')"
  shows "\<exists>r'. res = Some (approve_fields (or_else approver ''admin'') now r')"
proof -
  from assms obtain k r pr where kr: "resolve (docs (db st)) i = Inr (k, r)"
    and upd: "repo_update (docs (db st)) k (approve_data approver now) = Inr pr"
    and res: "res = fst pr"
    by (auto simp: approveReview_def split: sum.splits)
  from upd obtain oid where oid: "castObjectId k = Some oid"
    by (auto simp: repo_update_def split: option.splits)
  from lookup_some_member [OF resolve_member [OF kr]] castObjectId_Some [OF oid]
  obtain k' r' where "lookup (docs (db st)) oid = Some (k', r')" by auto
  from repo_update_found [OF oid this, of "approve_data approver now"] upd
  have "res = Some (approve_fields (or_else approver ''admin'') now r')"
    by (simp add: res apply_approve_data)
  then show ?thesis by blast
qed

lemma update_found:
  assumes "castObjectId ident = Some oid" and "lookup (docs (db st)) oid = Some (k, r)"
  shows "update st ident dto now =
     Inr (Some (apply_patch (update_data dto r now) r),
          invalidated (st\<lparr> db := (db st)\<lparr> docs :=
            update_first (\<lambda>(k, r). toLowerCase k = oid) (apply_patch (update_data dto r now)) (docs (db st)) \<rparr> \<rparr>))"
  by (simp add: update_def findById_def assms repo_update_found [OF assms])

lemma update_returns:
  assumes "findById (docs (db st)) ident = Inr (Some r)"
  shows "updated_review (update st ident dto now) = Some (apply_patch (update_data dto r now) r)"
proof -
  from findById_found [OF assms] obtain oid k where
    "castObjectId ident = Some oid" "lookup (docs (db st)) oid = Some (k, r)" by blast
  then show ?thesis by (simp add: update_found updated_review_def)
qed

lemma update_stored:
  assumes "findById (docs (db st)) ident = Inr (Some r)"
  shows "stored_after (update st ident dto now) ident = updated_review (update st ident dto now)"
proof -
  from findById_found [OF assms] obtain oid k where
    c: "castObjectId ident = Some oid" and l: "lookup (docs (db st)) oid = Some (k, r)" by blast
  show ?thesis
    by (simp add: update_found [OF c l] stored_after_def updated_review_def invalidated_def
          findById_def c lookup_update_first l)
qed

lemma patch_approve:
  assumes "u_isApprovedForPublic dto = Some True" and "\<not> isApprovedForPublic r"
  shows "apply_patch (update_data dto r now) r =
     r\<lparr> isApprovedForPublic := True,
        approvedBy := (case u_approvedBy dto of None \<Rightarrow> approvedBy r | Some s \<Rightarrow> Some s),
        approvedAt := Some now,
        managerNotes := (case u_managerNotes dto of None \<Rightarrow> managerNotes r | Some s \<Rightarrow> Some s) \<rparr>"
  using assms
  by (cases "u_approvedBy dto"; cases "u_managerNotes dto")
     (simp_all add: update_data_def apply_patch_def empty_patch_def set_field_def Let_def or_null_def)

lemma patch_unapprove:
  assumes "u_isApprovedForPublic dto = Some False"
  shows "apply_patch (update_data dto r now) r =
     r\<lparr> isApprovedForPublic := False, approvedBy := None, approvedAt := None,
        managerNotes := (case u_managerNotes dto of None \<Rightarrow> managerNotes r | Some s \<Rightarrow> Some s) \<rparr>"
  using assms
  by (cases "u_approvedBy dto"; cases "u_managerNotes dto")
     (simp_all add: update_data_def apply_patch_def empty_patch_def set_field_def Let_def or_null_def)


text \<open>
  C3 (as amended). For a stored review: a generic update that sets
  \<^verbatim>\<open>isApprovedForPublic\<close> to true on a review that is not approved sets \<^verbatim>\<open>approvedAt\<close> to
  the current time and \<^verbatim>\<open>approvedBy\<close> to the name the request gives, and leaves
  \<^verbatim>\<open>approvedBy\<close> as it was when the request gives none; an update that sets it to false
  clears \<^verbatim>\<open>approvedAt\<close> and \<^verbatim>\<open>approvedBy\<close>; the updated review is the one stored. The
  approve route on a review that is not approved, and \<^verbatim>\<open>approveReview\<close> whenever it
  succeeds, set \<^verbatim>\<open>approvedAt\<close> to the current time and \<^verbatim>\<open>approvedBy\<close> to the given name or
  "admin".
\<close>

theorem approval_metadata:
  assumes "findById (docs (db st)) ident = Inr (Some r)"
  shows
   "(u_isApprovedForPublic dto = Some True \<and> \<not> isApprovedForPublic r \<longrightarrow>
       updated_review (update st ident dto now) =
         Some (r\<lparr> isApprovedForPublic := True,
                  approvedBy := (case u_approvedBy dto of None \<Rightarrow> approvedBy r | Some s \<Rightarrow> Some s),
                  approvedAt := Some now,
                  managerNotes := (case u_managerNotes dto of None \<Rightarrow> managerNotes r | Some s \<Rightarrow> Some s) \<rparr>)) \<and>
    (u_isApprovedForPublic dto = Some False \<longrightarrow>
       updated_review (update st ident dto now) =
         Some (r\<lparr> isApprovedForPublic := False, approvedBy := None, approvedAt := None,
                  managerNotes := (case u_managerNotes dto of None \<Rightarrow> managerNotes r | Some s \<Rightarrow> Some s) \<rparr>)) \<and>
    stored_after (update st ident dto now) ident = updated_review (update st ident dto now) \<and>
    (\<not> isApprovedForPublic r \<longrightarrow>
       updated_review (approve st ident approver now) =
         Some (r\<lparr> isApprovedForPublic := True,
                  approvedBy := Some (or_else approver ''admin''),
                  approvedAt := Some now \<rparr>)) \<and>
    (\<forall>i res st'. approveReview st i approver now = Inr (res, st') \<longrightarrow>
       (\<exists>r'. res = Some r' \<and> isApprovedForPublic r' \<and>
             approvedBy r' = Some (or_else approver ''admin'') \<and> approvedAt r' = Some now))"
proof (intro conjI impI allI)
  assume "u_isApprovedForPublic dto = Some True \<and> \<not> isApprovedForPublic r"
  then show "updated_review (update st ident dto now) =
         Some (r\<lparr> isApprovedForPublic := True,
                  approvedBy := (case u_approvedBy dto of None \<Rightarrow> approvedBy r | Some s \<Rightarrow> Some s),
                  approvedAt := Some now,
                  managerNotes := (case u_managerNotes dto of None \<Rightarrow> managerNotes r | Some s \<Rightarrow> Some s) \<rparr>)"
    by (simp add: update_returns [OF assms] patch_approve)
next
  assume "u_isApprovedForPublic dto = Some False"
  then show "updated_review (update st ident dto now) =
         Some (r\<lparr> isApprovedForPublic := False, approvedBy := None, approvedAt := None,
                  managerNotes := (case u_managerNotes dto of None \<Rightarrow> managerNotes r | Some s \<Rightarrow> Some s) \<rparr>)"
    by (simp add: update_returns [OF assms] patch_unapprove)
next
  show "stored_after (update st ident dto now) ident = updated_review (update st ident dto now)"
    by (rule update_stored [OF assms])
next
  assume n: "\<not> isApprovedForPublic r"
  have "apply_patch (update_data \<lparr> u_isApprovedForPublic = Some True, u_managerNotes = None,
         u_approvedBy = Some (or_else approver ''admin'') \<rparr> r now) r =
       r\<lparr> isApprovedForPublic := True, approvedBy := Some (or_else approver ''admin''),
          approvedAt := Some now, managerNotes := managerNotes r \<rparr>"
    using patch_approve [of "\<lparr> u_isApprovedForPublic = Some True, u_managerNotes = None,
         u_approvedBy = Some (or_else approver ''admin'') \<rparr>" r now] n by simp
  then show "updated_review (approve st ident approver now) =
         Some (r\<lparr> isApprovedForPublic := True,
                  approvedBy := Some (or_else approver ''admin''),
                  approvedAt := Some now \<rparr>)"
    by (simp add: approve_def update_returns [OF assms])
next
  fix i res st' assume "approveReview st i approver now = Inr (res, st')"
  from approveReview_result [OF this]
  show "\<exists>r'. res = Some r' \<and> isApprovedForPublic r' \<and>
             approvedBy r' = Some (or_else approver ''admin'') \<and> approvedAt r' = Some now"
    by (auto simp: approve_fields_def)
qed

lemma sample_key_0: "findById (docs (db sample_state)) key_0 = Inr (Some review_0)"
  by code_simp

lemma review_0_pending:
  "\<not> isApprovedForPublic review_0 \<and> approvedBy review_0 = None \<and> managerNotes review_0 = None"
  by code_simp

lemma bob_succeeds: "succeeded (approveReview sample_state ''7453'' (Some ''bob'') 1000)"
  by code_simp

theorem approval_metadata_witness:
  "findById (docs (db sample_state)) key_0 = Inr (Some review_0) \<and>
   \<not> isApprovedForPublic review_0 \<and>
   updated_review (update sample_state key_0 approve_only 1000) =
     Some (review_0\<lparr> isApprovedForPublic := True, approvedAt := Some 1000 \<rparr>) \<and>
   updated_review (update sample_state key_0 unapprove_only 1000) =
     Some (review_0\<lparr> isApprovedForPublic := False, approvedBy := None, approvedAt := None \<rparr>) \<and>
   updated_review (approve sample_state key_0 None 1000) =
     Some (review_0\<lparr> isApprovedForPublic := True, approvedBy := Some ''admin'', approvedAt := Some 1000 \<rparr>) \<and>
   map_option approvedBy (updated_review (approveReview sample_state ''7453'' (Some ''bob'') 1000))
     = Some (Some ''bob'')"
proof -
  note a = approval_metadata [OF sample_key_0, of approve_only 1000 None]
  note u = approval_metadata [OF sample_key_0, of unapprove_only 1000 "Some ''bob''"]
  from a review_0_pending
  have 1: "updated_review (update sample_state key_0 approve_only 1000) =
     Some (review_0\<lparr> isApprovedForPublic := True, approvedAt := Some 1000 \<rparr>)"
    by (simp add: approve_only_def)
  from u review_0_pending
  have 2: "updated_review (update sample_state key_0 unapprove_only 1000) =
     Some (review_0\<lparr> isApprovedForPublic := False, approvedBy := None, approvedAt := None \<rparr>)"
    by (simp add: unapprove_only_def)
  from a review_0_pending
  have 3: "updated_review (approve sample_state key_0 None 1000) =
     Some (review_0\<lparr> isApprovedForPublic := True, approvedBy := Some ''admin'', approvedAt := Some 1000 \<rparr>)"
    by (simp add: or_else_def)
  from bob_succeeds obtain res st' where
    run: "approveReview sample_state ''7453'' (Some ''bob'') 1000 = Inr (res, st')"
    by (cases "approveReview sample_state ''7453'' (Some ''bob'') 1000") (auto simp: succeeded_def)
  with u obtain r' where "res = Some r'" and "approvedBy r' = Some (or_else (Some ''bob'') ''admin'')"
    by blast
  then have 4: "map_option approvedBy (updated_review (approveReview sample_state ''7453'' (Some ''bob'') 1000))
     = Some (Some ''bob'')"
    by (simp add: run updated_review_def or_else_def)
  from 1 2 3 4 sample_key_0 review_0_pending show ?thesis by blast
qed

text \<open>
  The claim as stated gives "admin" to every approval without a name. A generic update
  that approves the first sample review and names no approver sets the time and leaves
  \<^verbatim>\<open>approvedBy\<close> absent.
\<close>

theorem generic_approval_without_name_counterexample:
  "findById (docs (db sample_state)) key_0 = Inr (Some review_0) \<and>
   isApprovedForPublic review_0 = False \<and>
   u_approvedBy approve_only = None \<and>
   map_option isApprovedForPublic (updated_review (update sample_state key_0 approve_only 1000)) = Some True \<and>
   map_option approvedAt (updated_review (update sample_state key_0 approve_only 1000)) = Some (Some 1000) \<and>
   map_option approvedBy (updated_review (update sample_state key_0 approve_only 1000)) = Some None"
  by code_simp


subsection \<open>Cache invalidation\<close>

text \<open>
  C5. The claim does not hold of the code. On the sample store, after the three cached
  reads, an approval succeeds and removes the statistics entry, but the entry of the
  approved-reviews listing (key \<^verbatim>\<open>reviews:approved:all:10\<close>) and the entry of the trend
  (key \<^verbatim>\<open>reviews:trend:30\<close>) are still in the cache: the listing read after the approval
  returns the cached empty list although the store now has one approved review.
\<close>

theorem listing_and_trend_entries_survive:
  "succeeded (approveReview warm_state ''7453'' None 1000) \<and>
   approved_key None 10 = ''reviews:approved:all:10'' \<and>
   trend_key 30 = ''reviews:trend:30'' \<and>
   cache_get (cache warm_state) STATISTICS \<noteq> None \<and>
   cache_get (cache after_approval) STATISTICS = None \<and>
   cache_get (cache after_approval) ''reviews:approved:all:10'' \<noteq> None \<and>
   cache_get (cache after_approval) ''reviews:trend:30'' \<noteq> None \<and>
   length (findApprovedReviews (docs (db after_approval)) None 10) = 1 \<and>
   fst (getApprovedReviews after_approval None 10) = CachedReviews []"
  by code_simp

text \<open>In general: no mutation removes an entry stored by the listing or the trend read,
  and each removes the five keys it names.\<close>

lemma show_nat_nonempty: "show_nat n \<noteq> []"
  by (subst show_nat.simps) simp

lemma or_else_nonempty: "b \<noteq> [] \<Longrightarrow> or_else a b \<noteq> []"
  by (simp add: or_else_def split: option.splits)

lemma approved_key_kept: "invalidateCache c (approved_key listing n) = c (approved_key listing n)"
  using show_nat_nonempty [of n] or_else_nonempty [of "''all''" listing]
  by (simp add: invalidateCache_def CACHE_KEYS_def cache_del_def approved_key_def
        STATISTICS_def APPROVED_REVIEWS_def TREND_def Let_def append_eq_Cons_conv)

lemma show_int_nonempty: "show_int n \<noteq> []"
  by (simp add: show_int_def show_nat_nonempty)

lemma show_int_not_star: "show_int n \<noteq> ''*''"
proof (cases "n < 0")
  case True
  then show ?thesis by (simp add: show_int_def)
next
  case False
  have digit: "digit_char d \<noteq> CHR ''*''" if "d < 10" for d
  proof
    assume "digit_char d = CHR ''*''"
    then have "(of_char (char_of (48 + d)) :: nat) = of_char CHR ''*''"
      by (simp only: digit_char_def)
    with that show False by simp
  qed
  have "show_nat m \<noteq> ''*''" for m
    by (subst show_nat.simps) (auto simp: append_eq_Cons_conv show_nat_nonempty digit)
  with False show ?thesis by (simp add: show_int_def)
qed

lemma trend_key_kept: "invalidateCache c (trend_key days) = c (trend_key days)"
  using show_int_nonempty [of days] show_int_not_star [of days]
  by (simp add: invalidateCache_def CACHE_KEYS_def cache_del_def trend_key_def
        STATISTICS_def APPROVED_REVIEWS_def TREND_def Let_def)


lemma invalidated_keeps:
  assumes "k = approved_key listing n \<or> k = trend_key days"
  shows "cache (invalidated st) k = cache st k"
  using assms by (auto simp: invalidated_def approved_key_kept trend_key_kept)

lemma invalidated_db: "cache (invalidated (st\<lparr> db := d \<rparr>)) k = cache (invalidated st) k"
  by (simp add: invalidated_def)

lemma mutations_keep_listing_entries:
  assumes k: "k = approved_key listing n \<or> k = trend_key days"
  shows "syncReviews st ns = Inr (x1, st1) \<Longrightarrow> cache st1 k = cache st k"
    and "create parseDate st dto = Inr (x2, st2) \<Longrightarrow> cache st2 k = cache st k"
    and "update st ident u now = Inr (x3, st3) \<Longrightarrow> cache st3 k = cache st k"
    and "approveReview st ident approver now = Inr (x4, st4) \<Longrightarrow> cache st4 k = cache st k"
    and "bulkApprove st b now = Inr (x5, st5) \<Longrightarrow> cache st5 k = cache st k"
    and "remove_review st ident = Inr (x6, st6) \<Longrightarrow> cache st6 k = cache st k"
proof -
  note keep = invalidated_keeps [OF k] invalidated_db
  show "syncReviews st ns = Inr (x1, st1) \<Longrightarrow> cache st1 k = cache st k"
    by (auto simp: syncReviews_def Let_def keep split: if_splits)
  show "create parseDate st dto = Inr (x2, st2) \<Longrightarrow> cache st2 k = cache st k"
    by (auto simp: create_def keep split: option.splits sum.splits)
  show "update st ident u now = Inr (x3, st3) \<Longrightarrow> cache st3 k = cache st k"
    by (auto simp: update_def keep split: option.splits sum.splits)
  show "approveReview st ident approver now = Inr (x4, st4) \<Longrightarrow> cache st4 k = cache st k"
    by (auto simp: approveReview_def Let_def keep split: sum.splits)
  show "bulkApprove st b now = Inr (x5, st5) \<Longrightarrow> cache st5 k = cache st k"
    by (auto simp: bulkApprove_def Let_def keep split: if_splits sum.splits)
  show "remove_review st ident = Inr (x6, st6) \<Longrightarrow> cache st6 k = cache st k"
    by (auto simp: remove_review_def keep split: option.splits sum.splits)
qed

lemma named_keys_deleted:
  "k \<in> {''reviews:statistics'', ''reviews:approved'', ''reviews:trend'',
         ''reviews:approved:*'', ''reviews:trend:*''} \<Longrightarrow> invalidateCache c k = None"
  by (auto simp: invalidateCache_def CACHE_KEYS_def cache_del_def STATISTICS_def
        APPROVED_REVIEWS_def TREND_def Let_def)



subsection \<open>The stored average\<close>

lemma pre_save_mean:
  "reviewCategories r \<noteq> [] \<Longrightarrow> averageCategoryRating (pre_save r) = Some (category_mean (pre_save r))"
  by (simp add: pre_save_def category_mean_def mean_def foldl_rating_sum Let_def)

lemma pre_save_categories: "reviewCategories (pre_save r) = reviewCategories r"
  by (simp add: pre_save_def Let_def)

lemma repo_create_saved:
  assumes "repo_create d reviewData = Inr ((k, r), d')"
  shows "r = pre_save (new_document reviewData) \<and> (k, r) \<in> set (docs d')"
  using assms by (auto simp: repo_create_def Let_def split: if_splits)

text \<open>A review stored by \<^verbatim>\<open>create\<close> (a document save) that has at least one category has
  the mean of its category ratings as its average, whatever the caller supplied.\<close>

lemma create_stores_mean:
  assumes "repo_create d reviewData = Inr ((k, r), d')" and "reviewCategories r \<noteq> []"
  shows "(k, r) \<in> set (docs d') \<and> averageCategoryRating r = Some (category_mean r)"
proof -
  from repo_create_saved [OF assms(1)]
  have r: "r = pre_save (new_document reviewData)" and m: "(k, r) \<in> set (docs d')" by blast+
  from assms(2) have "reviewCategories (new_document reviewData) \<noteq> []"
    by (simp add: r pre_save_categories)
  then have "averageCategoryRating r = Some (category_mean r)"
    unfolding r by (rule pre_save_mean)
  with m show ?thesis by simp
qed

lemma create_recomputes_supplied_average:
  "succeeded (repo_create sample_db new_review) \<and>
   p_averageCategoryRating new_review = Some (Some 1) \<and>
   map_option category_ratings (created_review (repo_create sample_db new_review)) = Some [8, 9, 7] \<and>
   map_option averageCategoryRating (created_review (repo_create sample_db new_review)) = Some (Some 8)"
  by code_simp

text \<open>A synchronisation stores every review of a batch without two reviews of the same
  Hostaway id with the categories and the average that came with it.\<close>

lemma find_update_first_same:
  assumes "\<And>d. P d \<Longrightarrow> P (fst d, f (snd d))"
  shows "find P (update_first P f c) = map_option (\<lambda>d. (fst d, f (snd d))) (find P c)"
  using assms by (induction c) auto

lemma find_update_first_other:
  assumes "\<And>d. P d \<Longrightarrow> \<not> Q d \<and> \<not> Q (fst d, f (snd d))"
  shows "find Q (update_first P f c) = find Q c"
  using assms by (induction c) auto

lemma find_append_new: "find P c = None \<Longrightarrow> P d \<Longrightarrow> find P (c @ [d]) = Some d"
  by (induction c) (auto split: if_splits)

lemma find_append_other: "\<not> P d \<Longrightarrow> find P (c @ [d]) = find P c"
  by (induction c) auto

lemma upsert_one_stored:
  "map_option snd (findByHostawayId (docs (snd (upsert_one n (res, d)))) (n_hostawayId n))
     = Some (case findByHostawayId (docs d) (n_hostawayId n) of
               None \<Rightarrow> inserted_from n | Some (k, r) \<Rightarrow> set_normalized n r)"
proof (cases "findByHostawayId (docs d) (n_hostawayId n)")
  case None
  then show ?thesis
    by (simp add: upsert_one_def findByHostawayId_def find_append_new inserted_from_def)
next
  case (Some kr)
  obtain k r where kr: "kr = (k, r)" by (cases kr)
  have "find (\<lambda>(k, r). hostawayId r = n_hostawayId n)
          (update_first (\<lambda>(k, r). hostawayId r = n_hostawayId n) (set_normalized n) (docs d))
        = map_option (\<lambda>d. (fst d, set_normalized n (snd d)))
            (find (\<lambda>(k, r). hostawayId r = n_hostawayId n) (docs d))"
    by (rule find_update_first_same) (auto simp: set_normalized_def)
  with Some kr show ?thesis
    by (simp add: upsert_one_def findByHostawayId_def)
qed

lemma upsert_one_other:
  assumes "n_hostawayId m \<noteq> h"
  shows "findByHostawayId (docs (snd (upsert_one m acc))) h = findByHostawayId (docs (snd acc)) h"
proof (cases "findByHostawayId (docs (snd acc)) (n_hostawayId m)")
  case None
  with assms show ?thesis
    by (simp add: upsert_one_def findByHostawayId_def Let_def find_append_other inserted_from_def)
next
  case (Some kr)
  have "find (\<lambda>(k, r). hostawayId r = h)
          (update_first (\<lambda>(k, r). hostawayId r = n_hostawayId m) (set_normalized m) (docs (snd acc)))
        = find (\<lambda>(k, r). hostawayId r = h) (docs (snd acc))"
    using assms by (intro find_update_first_other) (auto simp: set_normalized_def)
  with Some show ?thesis
    by (auto simp: upsert_one_def findByHostawayId_def Let_def split: prod.splits)
qed

lemma upserts_other:
  "\<forall>m \<in> set ms. n_hostawayId m \<noteq> h \<Longrightarrow>
   findByHostawayId (docs (snd (foldl (\<lambda>acc review. upsert_one review acc) acc ms))) h
     = findByHostawayId (docs (snd acc)) h"
  by (induction ms arbitrary: acc) (simp_all add: upsert_one_other)

lemma upserts_stored:
  assumes "n \<in> set ns" and "distinct (map n_hostawayId ns)"
  shows "\<exists>k r. findByHostawayId (docs (snd (foldl (\<lambda>acc review. upsert_one review acc) acc ns))) (n_hostawayId n)
                 = Some (k, r) \<and>
               averageCategoryRating r = Some (n_averageCategoryRating n) \<and>
               reviewCategories r = n_reviewCategories n"
  using assms
proof (induction ns arbitrary: acc)
  case Nil
  then show ?case by simp
next
  case (Cons m ms)
  show ?case
  proof (cases "n \<in> set ms")
    case True
    with Cons.prems(2) Cons.IH [of "upsert_one m acc"] show ?thesis by simp
  next
    case False
    with Cons.prems(1) have nm: "n = m" by simp
    from Cons.prems(2) have "\<forall>x \<in> set ms. n_hostawayId x \<noteq> n_hostawayId m"
      by (auto simp: rev_image_eqI)
    then have keep: "findByHostawayId (docs (snd (foldl (\<lambda>acc review. upsert_one review acc) (upsert_one m acc) ms))) (n_hostawayId m)
        = findByHostawayId (docs (snd (upsert_one m acc))) (n_hostawayId m)"
      by (rule upserts_other)
    obtain res d where acc: "acc = (res, d)" by (cases acc)
    from upsert_one_stored [of m res d]
    obtain k r where "findByHostawayId (docs (snd (upsert_one m acc))) (n_hostawayId m) = Some (k, r)"
      and "r = (case findByHostawayId (docs d) (n_hostawayId m) of
               None \<Rightarrow> inserted_from m | Some (k, r) \<Rightarrow> set_normalized m r)"
      unfolding acc by auto
    then show ?thesis
      by (auto simp: nm keep inserted_from_def set_normalized_def split: option.splits)
  qed
qed

lemma sync_stores_supplied_average:
  assumes "syncReviews st ns = Inr (res, st')" and "n \<in> set ns" and "distinct (map n_hostawayId ns)"
  shows "\<exists>k r. findByHostawayId (docs (db st')) (n_hostawayId n) = Some (k, r) \<and>
               averageCategoryRating r = Some (n_averageCategoryRating n) \<and>
               reviewCategories r = n_reviewCategories n"
proof -
  from assms(1) have "docs (db st') = docs (snd (bulkUpsert (db st) ns))"
    by (auto simp: syncReviews_def Let_def invalidated_def split: if_splits)
  then show ?thesis
    using upserts_stored [OF assms(2) assms(3)] by (simp add: bulkUpsert_def)
qed

text \<open>The repository's update runs no hook either: an update that sets no average keeps
  the stored one, also when it replaces the categories. The service's update changes
  neither.\<close>

lemma repo_update_keeps_average:
  assumes "findById c ident = Inr (Some r)" and "p_averageCategoryRating p = None"
  shows "\<exists>r' c'. repo_update c ident p = Inr (Some r', c') \<and>
                 averageCategoryRating r' = averageCategoryRating r \<and>
                 reviewCategories r' = set_field (p_reviewCategories p) (reviewCategories r)"
proof -
  from findById_found [OF assms(1)] obtain oid k where
    "castObjectId ident = Some oid" "lookup c oid = Some (k, r)" by blast
  from repo_update_found [OF this, of p] assms(2) show ?thesis
    by (simp add: apply_patch_def set_field_def)
qed

lemma update_keeps_categories:
  "reviewCategories (apply_patch (update_data dto r now) r) = reviewCategories r \<and>
   averageCategoryRating (apply_patch (update_data dto r now) r) = averageCategoryRating r"
  by (simp add: update_data_def apply_patch_def empty_patch_def set_field_def Let_def)

text \<open>
  C1. The claim does not hold of the code. A synchronisation of one review with the
  category ratings 10, 9 and 10, whose average the caller has set to 3, succeeds and
  stores the review with the average 3: the mean of the stored ratings is 29/3, and 3
  is not a rounding of it to two decimal places. The entity's hook, which \<^verbatim>\<open>create\<close>
  runs, does not run for this write.
\<close>

theorem synced_average_is_supplied:
  "succeeded synced \<and>
   n_averageCategoryRating supplied = 3 \<and>
   map_option category_ratings (stored_after synced key_0) = Some [10, 9, 10] \<and>
   map_option averageCategoryRating (stored_after synced key_0) = Some (Some 3) \<and>
   map_option category_mean (stored_after synced key_0) = Some (29 / 3) \<and>
   \<not> rounded_to_2 (29 / 3) 3"
  by code_simp


end
